theory Spec2Isabelle
  imports Main "HOL-Library.Word"
begin

unbundle bit_operations_syntax

section \<open>Numbers of the runtime\<close>

text \<open>
  The numbers the program handles (difficulty, attempt bound, loop counter, HTTP status,
  position, milliseconds) are JavaScript numbers with integer values. Such a number is
  modelled by its value, an \<open>int\<close> that a double holds exactly: every integer up to
  \<open>2^53\<close> in magnitude, and above that the multiples of the spacing \<open>ulp\<close>.
\<close>

definition digit_char :: "int \<Rightarrow> char" where
  "digit_char k = char_of (48 + k)"

function digits :: "int \<Rightarrow> string" where
  "digits n = (if n < 10 then [digit_char n] else digits (n div 10) @ [digit_char (n mod 10)])"
  by pat_completeness auto
termination
  by (relation "measure nat") auto

declare digits.simps [simp del]

text \<open>The number of binary digits of a positive integer.\<close>

function bits :: "int \<Rightarrow> nat" where
  "bits a = (if a \<le> 0 then 0 else Suc (bits (a div 2)))"
  by pat_completeness auto
termination
  by (relation "measure nat") auto

declare bits.simps [simp del]

text \<open>The distance between neighbouring doubles at the magnitude \<open>a\<close>: 1 below \<open>2^53\<close>.\<close>

definition ulp :: "int \<Rightarrow> int" where
  "ulp a = 2 ^ (bits a - 53)"

text \<open>The double nearest to an integer, ties to the even mantissa.\<close>

definition round_double :: "int \<Rightarrow> int" where
  "round_double x =
     (let a = \<bar>x\<bar>; u = ulp a; q = a div u; r = a mod u;
          m = (if 2 * r < u \<or> (2 * r = u \<and> even q) then q * u else (q + 1) * u)
      in if x < 0 then - m else m)"

text \<open>\<open>nonce++\<close>: the sum is rounded, so at \<open>2^53\<close> the counter stays where it is.\<close>

definition increment :: "int \<Rightarrow> int" where
  "increment n = round_double (n + 1)"

text \<open>
  \<open>String(n)\<close> and \<open>`${n}`\<close> for a number: the shortest digit string that still reads
  back as the same double, closest to it when there are several, followed by zeros up to
  21 digits and in exponent form beyond. Up to \<open>2^53\<close> these are the digits of the integer.
  \<open>rounds_to a v\<close>: the integer \<open>v\<close> reads back as the double \<open>a\<close>.
\<close>

definition rounds_to :: "int \<Rightarrow> int \<Rightarrow> bool" where
  "rounds_to a v =
     (let u = ulp a;
          below = (if a = 2 ^ (bits a - 1) then u div 2 else u)
      in if even (a div u) then 2 * a - below \<le> 2 * v \<and> 2 * v \<le> 2 * a + u
         else 2 * a - below < 2 * v \<and> 2 * v < 2 * a + u)"

text \<open>
  The shortest digits \<open>s\<close> of \<open>a\<close> and the number \<open>j\<close> of decimal places dropped, trying
  \<open>j\<close> from the given one downwards.
\<close>

fun shortest :: "int \<Rightarrow> nat \<Rightarrow> int \<times> nat" where
  "shortest a 0 = (a, 0)"
| "shortest a (Suc j) =
     (let p = 10 ^ Suc j; lo = (a div p) * p; hi = lo + p
      in if rounds_to a lo \<and> (\<not> rounds_to a hi \<or> a - lo < hi - a
                               \<or> (a - lo = hi - a \<and> even (a div p)))
         then (a div p, Suc j)
         else if rounds_to a hi then (a div p + 1, Suc j)
         else shortest a j)"

definition number_digits :: "int \<Rightarrow> string" where
  "number_digits a =
     (if a \<le> 9007199254740992 then digits a
      else
        (let (s, j) = shortest a (length (digits a) - 1);
             ds = digits (if s mod 10 = 0 then s div 10 else s);
             n = (if s mod 10 = 0 then Suc j else j) + length ds
         in if n \<le> 21 then ds @ replicate (n - length ds) CHR ''0''
            else [hd ds] @ (if tl ds = [] then [] else CHR ''.'' # tl ds)
                 @ ''e+'' @ digits (int n - 1)))"

definition decimal :: "int \<Rightarrow> string" where
  "decimal n = (if n < 0 then CHR ''-'' # number_digits (- n) else number_digits n)"

text \<open>Reading a decimal numeral back (\<open>Number(s)\<close> on a string of digits).\<close>

definition digit_value :: "char \<Rightarrow> int" where
  "digit_value c = of_char c - 48"

definition nonce_value :: "string \<Rightarrow> int" where
  "nonce_value s = foldl (\<lambda>acc c. acc * 10 + digit_value c) 0 s"


section \<open>Strings of the runtime\<close>

text \<open>
  A JavaScript string is modelled by the bytes of its UTF-8 encoding (\<open>string\<close> is a list
  of 8-bit characters). The solver only ever appends decimal digits to the challenge, and
  digits are ASCII, so encoding the concatenation is concatenating the encodings.

  Node (V8) refuses to build a string of more than \<open>2^29 - 24\<close> characters. The program
  turns a number into a length in one place, \<open>'0'.repeat(difficulty)\<close>, and the limit is
  modelled there; the strings the program receives and joins (URL, email, token, body
  text) are taken to stay within it.
\<close>

definition max_string_length :: int where
  "max_string_length = 536870888"

text \<open>\<open>s.startsWith(p)\<close>.\<close>

definition startsWith :: "string \<Rightarrow> string \<Rightarrow> bool" where
  "startsWith s p = (take (length p) s = p)"

text \<open>\<open>s.includes(t)\<close>: \<open>t\<close> occurs in \<open>s\<close> at some position.\<close>

definition contains :: "string \<Rightarrow> string \<Rightarrow> bool" where
  "contains s t = list_ex (\<lambda>i. startsWith (drop i s) t) [0..<Suc (length s)]"

text \<open>The number of leading \<open>'0'\<close> characters of a hex string.\<close>

definition leading_zeros :: "string \<Rightarrow> nat" where
  "leading_zeros h = length (takeWhile (\<lambda>c. c = CHR ''0'') h)"


section \<open>SHA-256 (\<open>createHash('sha256').update(input, 'utf8').digest('hex')\<close>)\<close>

text \<open>
  The digest of node:crypto is the SHA-256 of FIPS 180-4, over 32-bit words, written out as
  64 lowercase hex characters.
\<close>

type_synonym u8 = "8 word"
type_synonym u32 = "32 word"

definition rotr :: "nat \<Rightarrow> u32 \<Rightarrow> u32" where
  "rotr n x = (drop_bit n x) OR (push_bit (32 - n) x)"

definition bsig0 :: "u32 \<Rightarrow> u32" where
  "bsig0 x = rotr 2 x XOR rotr 13 x XOR rotr 22 x"

definition bsig1 :: "u32 \<Rightarrow> u32" where
  "bsig1 x = rotr 6 x XOR rotr 11 x XOR rotr 25 x"

definition ssig0 :: "u32 \<Rightarrow> u32" where
  "ssig0 x = rotr 7 x XOR rotr 18 x XOR drop_bit 3 x"

definition ssig1 :: "u32 \<Rightarrow> u32" where
  "ssig1 x = rotr 17 x XOR rotr 19 x XOR drop_bit 10 x"

definition ch :: "u32 \<Rightarrow> u32 \<Rightarrow> u32 \<Rightarrow> u32" where
  "ch x y z = (x AND y) XOR (NOT x AND z)"

definition maj :: "u32 \<Rightarrow> u32 \<Rightarrow> u32 \<Rightarrow> u32" where
  "maj x y z = (x AND y) XOR (x AND z) XOR (y AND z)"

text \<open>The round constants and the initial hash value, in decimal.\<close>

definition sha256_k :: "u32 list" where
  "sha256_k =
   [1116352408, 1899447441, 3049323471, 3921009573, 961987163, 1508970993,
    2453635748, 2870763221, 3624381080, 310598401, 607225278, 1426881987,
    1925078388, 2162078206, 2614888103, 3248222580, 3835390401, 4022224774,
    264347078, 604807628, 770255983, 1249150122, 1555081692, 1996064986,
    2554220882, 2821834349, 2952996808, 3210313671, 3336571891, 3584528711,
    113926993, 338241895, 666307205, 773529912, 1294757372, 1396182291,
    1695183700, 1986661051, 2177026350, 2456956037, 2730485921, 2820302411,
    3259730800, 3345764771, 3516065817, 3600352804, 4094571909, 275423344,
    430227734, 506948616, 659060556, 883997877, 958139571, 1322822218,
    1537002063, 1747873779, 1955562222, 2024104815, 2227730452, 2361852424,
    2428436474, 2756734187, 3204031479, 3329325298]"

definition sha256_init :: "u32 list" where
  "sha256_init = [1779033703, 3144134277, 1013904242, 2773480762,
                  1359893119, 2600822924, 528734635, 1541459225]"

text \<open>The message length in bits, as eight big-endian bytes.\<close>

definition length_bytes :: "nat \<Rightarrow> u8 list" where
  "length_bytes n =
     (let bits = (word_of_nat (8 * n) :: 64 word)
      in map (\<lambda>i. ucast (drop_bit (8 * i) bits)) [7, 6, 5, 4, 3, 2, 1, 0])"

definition pad :: "u8 list \<Rightarrow> u8 list" where
  "pad bs = bs @ [128] @ replicate ((119 - length bs mod 64) mod 64) 0
               @ length_bytes (length bs)"

definition be_word :: "u8 list \<Rightarrow> u32" where
  "be_word bs = foldl (\<lambda>acc b. push_bit 8 acc OR ucast b) 0 bs"

fun words_of :: "nat \<Rightarrow> u8 list \<Rightarrow> u32 list" where
  "words_of 0 bs = []"
| "words_of (Suc k) bs = be_word (take 4 bs) # words_of k (drop 4 bs)"

text \<open>The message schedule: \<open>k\<close> more words after the ones in \<open>w\<close>.\<close>

fun schedule :: "nat \<Rightarrow> u32 list \<Rightarrow> u32 list" where
  "schedule 0 w = w"
| "schedule (Suc k) w =
     (let t = length w
      in schedule k
           (w @ [ssig1 (w ! (t - 2)) + w ! (t - 7) + ssig0 (w ! (t - 15)) + w ! (t - 16)]))"

fun round :: "u32 list \<Rightarrow> u32 \<times> u32 \<Rightarrow> u32 list" where
  "round [a, b, c, d, e, f, g, h] (k, w) =
     (let t1 = h + bsig1 e + ch e f g + k + w;
          t2 = bsig0 a + maj a b c
      in [t1 + t2, a, b, c, d + t1, e, f, g])"
| "round s _ = s"

definition compress :: "u32 list \<Rightarrow> u8 list \<Rightarrow> u32 list" where
  "compress hs block =
     map2 (+) hs (foldl round hs (zip sha256_k (schedule 48 (words_of 16 block))))"

fun blocks :: "nat \<Rightarrow> u32 list \<Rightarrow> u8 list \<Rightarrow> u32 list" where
  "blocks 0 hs bs = hs"
| "blocks (Suc k) hs bs = blocks k (compress hs (take 64 bs)) (drop 64 bs)"

definition hex_digit :: "u32 \<Rightarrow> char" where
  "hex_digit n = ''0123456789abcdef'' ! unat (n AND 15)"

definition hex_word :: "u32 \<Rightarrow> string" where
  "hex_word w = map (\<lambda>i. hex_digit (drop_bit (4 * i) w)) [7, 6, 5, 4, 3, 2, 1, 0]"

definition sha256 :: "string \<Rightarrow> string" where
  "sha256 input =
     (let bs = pad (map of_char input)
      in concat (map hex_word (blocks (length bs div 64) sha256_init bs)))"


section \<open>Errors\<close>

text \<open>
  A thrown value is an error object with its name and message, or some other value. Of
  another value the program only takes \<open>String(err)\<close>: this gives a string, or it throws
  in its turn (an object without a usable \<open>toString\<close>), and then the value is kept as
  what the conversion throws.
\<close>

datatype exn = Err string string | NonError string | Unprintable exn

text \<open>
  \<open>err instanceof Error ? err.message : String(err)\<close>: the message, or the value thrown
  by the conversion.
\<close>

fun err_message :: "exn \<Rightarrow> exn + string" where
  "err_message (Err name msg) = Inr msg"
| "err_message (NonError s) = Inr s"
| "err_message (Unprintable x) = Inl x"


section \<open>The puzzle solver\<close>

record solution =
  nonce :: string
  hash :: string

text \<open>
  The loop \<open>for (let nonce = 0; nonce < maxIterations; nonce++)\<close> of \<open>solveChallenge\<close>,
  from the counter value \<open>n\<close> on. It returns a solution (\<open>Some (Some s)\<close>), runs out
  (\<open>Some None\<close>), or never ends (\<open>None\<close>).
\<close>

partial_function (option) solve_loop ::
  "string \<Rightarrow> string \<Rightarrow> int \<Rightarrow> int \<Rightarrow> solution option option" where
  "solve_loop challenge prefix maxIterations n =
     (if n < maxIterations then
        (if startsWith (sha256 (challenge @ decimal n)) prefix
         then Some (Some \<lparr>nonce = decimal n, hash = sha256 (challenge @ decimal n)\<rparr>)
         else solve_loop challenge prefix maxIterations (increment n))
      else Some None)"

declare solve_loop.simps [code]

text \<open>The error thrown after the loop.\<close>

definition exhausted_error :: "int \<Rightarrow> int \<Rightarrow> exn" where
  "exhausted_error maxIterations difficulty =
     Err ''Error'' (''solveChallenge: no solution found within '' @ decimal maxIterations
                    @ '' iterations (difficulty '' @ decimal difficulty @ '')'')"

text \<open>
  \<open>'0'.repeat(count)\<close> throws a RangeError on a negative count and on a count above the
  longest string the runtime builds.
\<close>

definition repeat_zero :: "int \<Rightarrow> exn + string" where
  "repeat_zero count =
     (if count < 0 then Inl (Err ''RangeError'' (''Invalid count value: '' @ decimal count))
      else if max_string_length < count then Inl (Err ''RangeError'' ''Invalid string length'')
      else Inr (replicate (nat count) CHR ''0''))"

text \<open>\<open>solveChallenge\<close>: \<open>None\<close> when the call never returns.\<close>

definition solveChallenge :: "string \<Rightarrow> int \<Rightarrow> int \<Rightarrow> (exn + solution) option" where
  "solveChallenge challenge difficulty maxIterations =
     (case repeat_zero difficulty of
        Inl e \<Rightarrow> Some (Inl e)
      | Inr prefix \<Rightarrow>
          (case solve_loop challenge prefix maxIterations 0 of
             None \<Rightarrow> None
           | Some None \<Rightarrow> Some (Inl (exhausted_error maxIterations difficulty))
           | Some (Some s) \<Rightarrow> Some (Inr s)))"


section \<open>JSON values and HTTP responses\<close>

text \<open>
  A parsed JSON value. Numbers are kept with integer values: the program hands a number of
  an answer on as it is and otherwise only prints it in a log line.
\<close>

datatype json =
  JNull | JBool bool | JNum int | JStr string | JArr "json list" | JObj "(string \<times> json) list"

text \<open>
  The expected shape of a challenge body,
  \<open>{ pow_required: boolean, challenge: string, difficulty: integer }\<close>, as a predicate on
  parsed JSON (of duplicate keys the last one counts).
\<close>

definition is_challenge_shape :: "json \<Rightarrow> bool" where
  "is_challenge_shape v =
     (case v of
        JObj members \<Rightarrow>
          (case (map_of (rev members) ''pow_required'', map_of (rev members) ''challenge'',
                 map_of (rev members) ''difficulty'') of
             (Some (JBool p), Some (JStr c), Some (JNum d)) \<Rightarrow> True
           | _ \<Rightarrow> False)
      | _ \<Rightarrow> False)"

text \<open>
  Reading \<open>v.success\<close>, \<open>v.error\<close> or \<open>v.position\<close> of a parsed value other than \<open>null\<close>:
  the member of an object, \<open>undefined\<close> (\<open>None\<close>) when the object has none of that name
  or the value is no object. On \<open>null\<close> the read throws.
\<close>

fun get :: "json \<Rightarrow> string \<Rightarrow> json option" where
  "get (JObj members) name = map_of (rev members) name"
| "get v name = None"

definition null_read_error :: "string \<Rightarrow> exn" where
  "null_read_error name =
     Err ''TypeError'' (''Cannot read properties of null (reading '' @ [CHR 0x27] @ name
                        @ [CHR 0x27] @ '')'')"

text \<open>
  \<open>`${v}`\<close> for a parsed value. An array is joined with commas, \<open>null\<close> elements as
  empty strings. An object prints as \<open>[object Object]\<close> through the inherited \<open>toString\<close>;
  an object with a member named \<open>toString\<close> of its own has no function there (a parsed
  member never is one) and the inherited \<open>valueOf\<close> gives no primitive, so the conversion
  throws.
\<close>

fun join_comma :: "string list \<Rightarrow> string" where
  "join_comma [] = []"
| "join_comma [x] = x"
| "join_comma (x # y # zs) = x @ '','' @ join_comma (y # zs)"

definition to_primitive_error :: exn where
  "to_primitive_error = Err ''TypeError'' ''Cannot convert object to primitive value''"

fun js_string :: "json \<Rightarrow> exn + string"
  and js_strings :: "json list \<Rightarrow> exn + string list" where
  "js_string JNull = Inr ''null''"
| "js_string (JBool b) = Inr (if b then ''true'' else ''false'')"
| "js_string (JNum n) = Inr (decimal n)"
| "js_string (JStr s) = Inr s"
| "js_string (JArr vs) = (case js_strings vs of Inl e \<Rightarrow> Inl e | Inr ss \<Rightarrow> Inr (join_comma ss))"
| "js_string (JObj members) =
     (if ''toString'' \<in> set (map fst members) then Inl to_primitive_error
      else Inr ''[object Object]'')"
| "js_strings [] = Inr []"
| "js_strings (v # vs) =
     (case (if v = JNull then Inr [] else js_string v) of
        Inl e \<Rightarrow> Inl e
      | Inr s \<Rightarrow> (case js_strings vs of Inl e \<Rightarrow> Inl e | Inr ss \<Rightarrow> Inr (s # ss)))"

text \<open>
  What the program reads of a \<open>Response\<close>: its status, and the outcomes of \<open>res.text()\<close>
  and \<open>res.json()\<close>, each a value or a rejection. The type of the parsed body is a
  parameter: \<open>fetchChallenge\<close> hands the body on without looking at it.
\<close>

record 'b response =
  status :: int
  text_body :: "exn + string"
  json_body :: "exn + 'b"

text \<open>\<open>res.ok\<close>: the status is in the range 200-299.\<close>

definition ok :: "'b response \<Rightarrow> bool" where
  "ok res = (200 \<le> status res \<and> status res \<le> 299)"

text \<open>
  The challenge as the source types it. Its fields go into \<open>repeat\<close> and a template
  literal, so the solver is modelled for a challenge of this type.
\<close>

record ChallengeResponse =
  pow_required :: bool
  challenge :: string
  difficulty :: int

text \<open>
  \<open>fetchChallenge(url, signal)\<close>. The global \<open>fetch\<close> is the first argument: what a GET of
  the URL gives, a rejection (network failure, abort by the timer) or a response.
\<close>

definition fetchChallenge :: "(string \<Rightarrow> exn + 'b response) \<Rightarrow> string \<Rightarrow> exn + 'b" where
  "fetchChallenge fetch url =
     (case fetch url of
        Inl e \<Rightarrow> Inl e
      | Inr res \<Rightarrow>
          if \<not> ok res then
            Inl (Err ''Error'' (''GET '' @ url @ '' responded with HTTP '' @ decimal (status res)))
          else (case json_body res of Inl e \<Rightarrow> Inl e | Inr data \<Rightarrow> Inr data))"


section \<open>The orchestrator\<close>

text \<open>
  The result object. \<open>position\<close> and \<open>error\<close> hold what the code puts there: a message
  string, or a member of the parsed answer, which is any JSON value.
\<close>

record SolveResult =
  success :: bool
  position :: "json option"
  error :: "json option"

text \<open>
  The world around one call: what the GET and the POST of \<open>fetch\<close> give (the POST for the
  JSON document sent as its body, with any parsed JSON value as the answer), and the
  milliseconds the clock advances while solving.
\<close>

record network =
  fetch_get :: "string \<Rightarrow> exn + ChallengeResponse response"
  fetch_post :: "string \<Rightarrow> json \<Rightarrow> exn + json response"
  elapsed :: int

text \<open>The effects of a call, in order: timer, lines on stdout, requests.\<close>

datatype event =
  SetTimeout int | ClearTimeout | Stdout string | Get string
  | Post string "(string \<times> string) list" json

definition ellipsis :: string where
  "ellipsis = [CHR 0xE2, CHR 0x80, CHR 0xA6]"

definition em_dash :: string where
  "em_dash = [CHR 0xE2, CHR 0x80, CHR 0x94]"

definition check_mark :: string where
  "check_mark = [CHR 0xE2, CHR 0x9C, CHR 0x93]"

definition log :: "bool \<Rightarrow> string \<Rightarrow> event list" where
  "log verbose message = (if verbose then [Stdout (''[solver] '' @ message @ [CHR 0x0A])] else [])"

definition failure :: "string \<Rightarrow> SolveResult" where
  "failure message = \<lparr>success = False, position = None, error = Some (JStr message)\<rparr>"

text \<open>The document sent, \<open>JSON.stringify({ email, nonce, solution: hash })\<close>, as its value.\<close>

definition post_body :: "string \<Rightarrow> solution \<Rightarrow> json" where
  "post_body email sol =
     JObj [(''email'', JStr email), (''nonce'', JStr (nonce sol)), (''solution'', JStr (hash sol))]"

definition post_headers :: "(string \<times> string) list" where
  "post_headers = [(''Content-Type'', ''application/json'')]"

text \<open>
  \<open>result.position != null ? ` (position #${result.position})` : ''\<close>, the end of the
  last log line. It is an argument of \<open>log\<close>, so it is computed whether or not the line
  is printed.
\<close>

definition position_suffix :: "json \<Rightarrow> exn + string" where
  "position_suffix result =
     (case get result ''position'' of
        None \<Rightarrow> Inr []
      | Some JNull \<Rightarrow> Inr []
      | Some p \<Rightarrow>
          (case js_string p of
             Inl e \<Rightarrow> Inl e
           | Inr s \<Rightarrow> Inr ('' (position #'' @ s @ '')'')))"

text \<open>
  Step 3 of the \<open>try\<close> block: submit the registration and read the answer. The first
  read, \<open>result.success\<close>, throws when the answer is \<open>null\<close>.
\<close>

definition submit_step ::
  "network \<Rightarrow> string \<Rightarrow> string \<Rightarrow> bool \<Rightarrow> solution \<Rightarrow> event list \<times> (exn + SolveResult)" where
  "submit_step net url email verbose sol =
     (let body = post_body email sol;
          t = log verbose (''Submitting entry for '' @ email @ '' '' @ ellipsis)
              @ [Post url post_headers body]
      in case fetch_post net url body of
           Inl err \<Rightarrow> (t, Inl err)
         | Inr postRes \<Rightarrow>
             if \<not> ok postRes then
               (let text = (case text_body postRes of Inl e \<Rightarrow> [] | Inr s \<Rightarrow> s)
                in (t, Inr (failure (''POST '' @ url @ '' responded with HTTP ''
                                     @ decimal (status postRes) @ '': '' @ text))))
             else
               (case json_body postRes of
                  Inl err \<Rightarrow> (t, Inl err)
                | Inr result \<Rightarrow>
                    if result = JNull then (t, Inl (null_read_error ''success''))
                    else if get result ''success'' = Some (JBool False) then
                      (t, Inr \<lparr>success = False, position = None,
                               error = Some (case get result ''error'' of
                                               None \<Rightarrow> JStr ''Server returned success: false''
                                             | Some JNull \<Rightarrow> JStr ''Server returned success: false''
                                             | Some e \<Rightarrow> e)\<rparr>)
                    else
                      (case position_suffix result of
                         Inl err \<Rightarrow> (t, Inl err)
                       | Inr suffix \<Rightarrow>
                           (t @ log verbose
                                  (check_mark @ '' Successfully joined the waitlist'' @ suffix),
                            Inr \<lparr>success = True, position = get result ''position'',
                                 error = None\<rparr>))))"

text \<open>
  The \<open>try\<close> block: fetch, solve, submit. \<open>Inl\<close> is a value thrown out of it; \<open>None\<close>
  when the solver never returns.
\<close>

definition try_block ::
  "network \<Rightarrow> string \<Rightarrow> string \<Rightarrow> bool \<Rightarrow> (event list \<times> (exn + SolveResult)) option" where
  "try_block net url email verbose =
     (let t1 = log verbose (''Fetching challenge from '' @ url @ '' '' @ ellipsis) @ [Get url]
      in case fetchChallenge (fetch_get net) url of
           Inl err \<Rightarrow> Some (t1, Inl err)
         | Inr challengeData \<Rightarrow>
             (let t2 = t1 @ (if \<not> pow_required challengeData then
                               log verbose (''No POW challenge required '' @ em_dash
                                            @ '' submitting directly '' @ ellipsis)
                             else
                               log verbose (''Difficulty: '' @ decimal (difficulty challengeData)
                                            @ '' leading zero(s)''))
              in case solveChallenge (challenge challengeData) (difficulty challengeData)
                        10000000 of
                   None \<Rightarrow> None
                 | Some (Inl err) \<Rightarrow> Some (t2, Inl err)
                 | Some (Inr sol) \<Rightarrow>
                     (let t3 = t2 @ log verbose
                                 (''Challenge solved in '' @ decimal (elapsed net)
                                  @ '' ms  (nonce: '' @ nonce sol @ '', hash: '' @ hash sol
                                  @ '')'');
                          (t4, r) = submit_step net url email verbose sol
                      in Some (t3 @ t4, r))))"

record SolveOptions =
  url :: string
  email :: string
  timeout :: "int option"
  verbose :: "bool option"

text \<open>
  The \<open>catch\<close> clause: a failure result with the message of what was thrown; when the
  thrown value has no string, the conversion throws and the clause throws with it.
\<close>

definition catch_clause :: "exn \<Rightarrow> exn + SolveResult" where
  "catch_clause err =
     (case err_message err of
        Inl thrown \<Rightarrow> Inl thrown
      | Inr message \<Rightarrow> Inr (failure message))"

text \<open>
  \<open>solveAndSubmit(options)\<close>: the effects and how the promise settles, resolved with a
  result (\<open>Inr\<close>) or rejected with a thrown value (\<open>Inl\<close>); \<open>None\<close> when it never settles.
  \<open>finally\<close> clears the timer on every way out.
\<close>

definition solveAndSubmit ::
  "network \<Rightarrow> SolveOptions \<Rightarrow> (event list \<times> (exn + SolveResult)) option" where
  "solveAndSubmit net options =
     (let ms = (case timeout options of Some t \<Rightarrow> t | None \<Rightarrow> 5000);
          v = (case verbose options of Some b \<Rightarrow> b | None \<Rightarrow> False)
      in case try_block net (url options) (email options) v of
           None \<Rightarrow> None
         | Some (t, r) \<Rightarrow>
             Some ([SetTimeout ms] @ t @ [ClearTimeout],
                   (case r of Inl err \<Rightarrow> catch_clause err | Inr res \<Rightarrow> Inr res)))"

text \<open>The requests among the effects.\<close>

fun is_request :: "event \<Rightarrow> bool" where
  "is_request (Get u) = True"
| "is_request (Post u hs b) = True"
| "is_request e = False"

text \<open>How the promise of a call settles, and the requests the call makes.\<close>

definition outcome :: "network \<Rightarrow> SolveOptions \<Rightarrow> (exn + SolveResult) option" where
  "outcome net options = map_option snd (solveAndSubmit net options)"

definition requests :: "network \<Rightarrow> SolveOptions \<Rightarrow> event list option" where
  "requests net options = map_option (\<lambda>(t, r). filter is_request t) (solveAndSubmit net options)"


section \<open>Concrete runs\<close>

text \<open>Responses and networks of the end-to-end scenarios, for evaluation.\<close>

definition challenge_y :: "bool \<Rightarrow> ChallengeResponse response" where
  "challenge_y flag =
     \<lparr>status = 200, text_body = Inr [],
      json_body = Inr \<lparr>pow_required = flag, challenge = ''y'', difficulty = 1\<rparr>\<rparr>"

definition get_y :: "bool \<Rightarrow> string \<Rightarrow> exn + ChallengeResponse response" where
  "get_y flag u = Inr (challenge_y flag)"

definition get_network_error :: "string \<Rightarrow> exn + ChallengeResponse response" where
  "get_network_error u = Inl (Err ''TypeError'' ''Network error'')"

definition get_thrown_string :: "string \<Rightarrow> exn + ChallengeResponse response" where
  "get_thrown_string u = Inl (NonError ''boom'')"

definition get_thrown_unprintable :: "string \<Rightarrow> exn + ChallengeResponse response" where
  "get_thrown_unprintable u =
     Inl (Unprintable (Err ''TypeError'' ''Cannot convert object to primitive value''))"

definition answer :: "json \<Rightarrow> string \<Rightarrow> json \<Rightarrow> exn + json response" where
  "answer v u b = Inr \<lparr>status = 200, text_body = Inr [], json_body = Inr v\<rparr>"

definition joined :: json where
  "joined = JObj [(''success'', JBool True), (''position'', JNum 7)]"

definition duplicate :: json where
  "duplicate = JObj [(''success'', JBool False), (''error'', JStr ''duplicate email'')]"

definition post_bad_request :: "string \<Rightarrow> json \<Rightarrow> exn + json response" where
  "post_bad_request u b =
     Inr \<lparr>status = 400, text_body = Inr ''Bad Request'',
          json_body = Inl (Err ''SyntaxError'' ''Unexpected token B in JSON at position 0'')\<rparr>"

definition solution_y :: solution where
  "solution_y =
     \<lparr>nonce = ''1'',
      hash = ''03e0769b10886aef0ff2170851dd67d41755c87037c4319d9901e7fdf518c485''\<rparr>"

definition scenario_a :: network where
  "scenario_a = \<lparr>fetch_get = get_y True, fetch_post = answer joined, elapsed = 3\<rparr>"

definition scenario_b :: network where
  "scenario_b = \<lparr>fetch_get = get_network_error, fetch_post = answer joined, elapsed = 3\<rparr>"

definition scenario_c :: network where
  "scenario_c = \<lparr>fetch_get = get_y True, fetch_post = post_bad_request, elapsed = 3\<rparr>"

definition scenario_d :: network where
  "scenario_d = \<lparr>fetch_get = get_y True, fetch_post = answer duplicate, elapsed = 3\<rparr>"

definition scenario_no_pow :: network where
  "scenario_no_pow = \<lparr>fetch_get = get_y False, fetch_post = answer (JObj []), elapsed = 3\<rparr>"

definition scenario_null :: network where
  "scenario_null = \<lparr>fetch_get = get_y True, fetch_post = answer JNull, elapsed = 3\<rparr>"

definition position_object :: json where
  "position_object = JObj [(''position'', JObj [(''toString'', JNum 1)])]"

definition scenario_position_object :: network where
  "scenario_position_object =
     \<lparr>fetch_get = get_y True, fetch_post = answer position_object, elapsed = 3\<rparr>"

definition scenario_thrown_string :: network where
  "scenario_thrown_string =
     \<lparr>fetch_get = get_thrown_string, fetch_post = answer joined, elapsed = 3\<rparr>"

definition scenario_unprintable :: network where
  "scenario_unprintable =
     \<lparr>fetch_get = get_thrown_unprintable, fetch_post = answer joined, elapsed = 3\<rparr>"

definition example_options :: SolveOptions where
  "example_options =
     \<lparr>url = ''https://example.com'', email = ''a@b.com'', timeout = None, verbose = None\<rparr>"

definition get_unavailable :: "string \<Rightarrow> exn + json response" where
  "get_unavailable u =
     Inr \<lparr>status = 503, text_body = Inr [], json_body = Inl (Err ''SyntaxError'' [])\<rparr>"

definition get_malformed :: "string \<Rightarrow> exn + json response" where
  "get_malformed u =
     Inr \<lparr>status = 200, text_body = Inr ''<html>'',
          json_body = Inl (Err ''SyntaxError'' ''Unexpected token < in JSON at position 0'')\<rparr>"

definition get_empty_object :: "string \<Rightarrow> exn + json response" where
  "get_empty_object u = Inr \<lparr>status = 200, text_body = Inr ''{}'', json_body = Inr (JObj [])\<rparr>"

section \<open>Evaluated digests\<close>

text \<open>
  The digest of \<open>"abc"\<close> is the first example of FIPS 180-4; the other two are the digests
  the concrete runs below need.
\<close>

lemma sha256_abc:
  "sha256 ''abc'' = ''ba7816bf8f01cfea414140de5dae2223b00361a396177a9cb410ff61f20015ad''"
  by code_simp

lemma sha256_y0:
  "sha256 ''y0'' = ''ea29aff4f763a1dbbe46bc514fcb1b30a3242b07a477117fc79e2e476c94e449''"
  by code_simp

lemma sha256_y1:
  "sha256 ''y1'' = ''03e0769b10886aef0ff2170851dd67d41755c87037c4319d9901e7fdf518c485''"
  by code_simp

section \<open>The counter and its numeral\<close>

text \<open>
  Below \<open>2^53\<close> the counter advances by one and its numeral is the plain decimal numeral,
  which \<open>nonce_value\<close> reads back; at \<open>2^53\<close> the increment leaves the counter where it is.
\<close>

lemma bits_bound: "a < 2 ^ k \<Longrightarrow> bits a \<le> k"
proof (induction k arbitrary: a)
  case 0
  then show ?case by (simp add: bits.simps [of a])
next
  case (Suc k)
  show ?case
  proof (cases "a \<le> 0")
    case True
    then show ?thesis by (simp add: bits.simps [of a])
  next
    case False
    from Suc.prems have "a div 2 < 2 ^ k" by simp
    from Suc.IH [OF this] False show ?thesis by (simp add: bits.simps [of a])
  qed
qed

lemma ulp_small: "a < 9007199254740992 \<Longrightarrow> ulp a = 1"
proof -
  assume "a < 9007199254740992"
  then have "a < 2 ^ 53" by simp
  from bits_bound [OF this] show ?thesis by (simp add: ulp_def)
qed

lemma round_double_small: "\<bar>x\<bar> < 9007199254740992 \<Longrightarrow> round_double x = x"
  by (simp add: round_double_def Let_def ulp_small)

lemma round_double_top: "round_double 9007199254740992 = 9007199254740992"
  by code_simp

lemma round_double_above: "round_double 9007199254740993 = 9007199254740992"
  by code_simp

lemma increment_exact: "0 \<le> n \<Longrightarrow> n < 9007199254740992 \<Longrightarrow> increment n = n + 1"
proof -
  assume n: "0 \<le> n" "n < 9007199254740992"
  show ?thesis
  proof (cases "n + 1 = 9007199254740992")
    case True
    then show ?thesis by (simp add: increment_def round_double_top)
  next
    case False
    with n have "\<bar>n + 1\<bar> < 9007199254740992" by simp
    then show ?thesis by (simp add: increment_def round_double_small)
  qed
qed

lemma increment_stuck: "increment 9007199254740992 = 9007199254740992"
  by (simp add: increment_def round_double_above)

lemma decimal_digits: "0 \<le> n \<Longrightarrow> n \<le> 9007199254740992 \<Longrightarrow> decimal n = digits n"
  by (simp add: decimal_def number_digits_def)

lemma digit_value_digit_char: "0 \<le> k \<Longrightarrow> k < 10 \<Longrightarrow> digit_value (digit_char k) = k"
  by (simp add: digit_value_def digit_char_def)

lemma nonce_value_append: "nonce_value (s @ [c]) = nonce_value s * 10 + digit_value c"
  by (simp add: nonce_value_def)

lemma nonce_value_digits: "0 \<le> n \<Longrightarrow> nonce_value (digits n) = n"
proof (induction n rule: digits.induct)
  case (1 n)
  show ?case
  proof (cases "n < 10")
    case True
    with "1.prems" show ?thesis
      by (simp add: digits.simps [of n] nonce_value_def digit_value_digit_char)
  next
    case False
    with "1.prems" "1.IH" have "nonce_value (digits (n div 10)) = n div 10" by simp
    with False show ?thesis
      by (simp add: digits.simps [of n] nonce_value_append digit_value_digit_char)
  qed
qed

lemma nonce_value_decimal:
  "0 \<le> n \<Longrightarrow> n \<le> 9007199254740992 \<Longrightarrow> nonce_value (decimal n) = n"
  by (simp add: decimal_digits nonce_value_digits)

lemma decimal_0: "decimal 0 = ''0''"
  by code_simp

lemma decimal_1: "decimal 1 = ''1''"
  by code_simp

lemma decimal_400: "decimal 400 = ''400''"
  by code_simp

lemma decimal_503: "decimal 503 = ''503''"
  by code_simp

section \<open>The search loop\<close>

text \<open>
  When the loop ends from a counter value up to \<open>2^53\<close>, either every value from there up
  to the bound was refused, or it returns the first accepted value. It ends whenever the
  bound is at most \<open>2^53\<close>; with a larger bound and no accepted value up to \<open>2^53\<close> it
  does not end.
\<close>

lemma solve_loop_hit:
  "n < m \<Longrightarrow> startsWith (sha256 (c @ decimal n)) p \<Longrightarrow>
     solve_loop c p m n = Some (Some \<lparr>nonce = decimal n, hash = sha256 (c @ decimal n)\<rparr>)"
  by (simp add: solve_loop.simps [of c p m n])

lemma solve_loop_miss:
  "n < m \<Longrightarrow> \<not> startsWith (sha256 (c @ decimal n)) p \<Longrightarrow>
     solve_loop c p m n = solve_loop c p m (increment n)"
  by (simp add: solve_loop.simps [of c p m n])

lemma solve_loop_end: "\<not> n < m \<Longrightarrow> solve_loop c p m n = Some None"
  by (simp add: solve_loop.simps [of c p m n])

lemma solve_loop_returns:
  "solve_loop c p m n = Some r \<Longrightarrow>
     0 \<le> n \<longrightarrow> n \<le> 9007199254740992 \<longrightarrow>
       (case r of
          None \<Rightarrow> (\<forall>j. n \<le> j \<and> j < m \<longrightarrow> \<not> startsWith (sha256 (c @ decimal j)) p)
        | Some s \<Rightarrow>
            (\<exists>k. n \<le> k \<and> k < m \<and> k \<le> 9007199254740992
               \<and> nonce s = decimal k \<and> hash s = sha256 (c @ decimal k)
               \<and> startsWith (hash s) p
               \<and> (\<forall>j. n \<le> j \<and> j < k \<longrightarrow> \<not> startsWith (sha256 (c @ decimal j)) p)))"
proof (induction c p m n r rule: solve_loop.raw_induct [rotated, consumes 1])
  case (1 f c p m n r)
  let ?miss = "\<lambda>j. \<not> startsWith (sha256 (c @ decimal j)) p"
  let ?good = "\<lambda>n s k. n \<le> k \<and> k < m \<and> k \<le> 9007199254740992
               \<and> nonce s = decimal k \<and> hash s = sha256 (c @ decimal k)
               \<and> startsWith (hash s) p \<and> (\<forall>j. n \<le> j \<and> j < k \<longrightarrow> ?miss j)"
  show ?case
  proof (intro impI)
    assume n: "0 \<le> n" "n \<le> 9007199254740992"
    show "case r of None \<Rightarrow> (\<forall>j. n \<le> j \<and> j < m \<longrightarrow> ?miss j)
                  | Some s \<Rightarrow> (\<exists>k. ?good n s k)"
    proof (cases "n < m")
      case False
      with "1.hyps" have "r = None" by simp
      moreover from False have "\<forall>j. n \<le> j \<and> j < m \<longrightarrow> ?miss j" by auto
      ultimately show ?thesis by simp
    next
      case True
      show ?thesis
      proof (cases "startsWith (sha256 (c @ decimal n)) p")
        case hit: True
        let ?s = "\<lparr>nonce = decimal n, hash = sha256 (c @ decimal n)\<rparr>"
        from True hit "1.hyps" have r: "r = Some ?s" by simp
        have "\<forall>j. n \<le> j \<and> j < n \<longrightarrow> ?miss j" by auto
        with True hit n have "?good n ?s n" by simp
        then have "\<exists>k. ?good n ?s k" by (rule exI)
        with r show ?thesis by simp
      next
        case miss: False
        with True "1.hyps" have rec: "f c p m (increment n) = Some r" by simp
        show ?thesis
        proof (cases "n < 9007199254740992")
          case False
          with n have "n = 9007199254740992" by simp
          with rec have "f c p m n = Some r" by (simp add: increment_stuck)
          from "1.IH" [OF this] n show ?thesis by blast
        next
          case below: True
          with n rec have "f c p m (n + 1) = Some r" by (simp add: increment_exact)
          moreover from n below have "0 \<le> n + 1" "n + 1 \<le> 9007199254740992" by simp_all
          ultimately
          have ih: "case r of None \<Rightarrow> (\<forall>j. n + 1 \<le> j \<and> j < m \<longrightarrow> ?miss j)
                            | Some s \<Rightarrow> (\<exists>k. ?good (n + 1) s k)"
            using "1.IH" by blast
          have first: "?miss j" if "n \<le> j" and "\<not> n + 1 \<le> j" for j
          proof -
            from that have "j = n" by simp
            with miss show ?thesis by simp
          qed
          show ?thesis
          proof (cases r)
            case None
            with ih have rest: "\<forall>j. n + 1 \<le> j \<and> j < m \<longrightarrow> ?miss j" by simp
            have "\<forall>j. n \<le> j \<and> j < m \<longrightarrow> ?miss j"
            proof (intro allI impI)
              fix j assume j: "n \<le> j \<and> j < m"
              show "?miss j"
              proof (cases "n + 1 \<le> j")
                case True with rest j show ?thesis by blast
              next
                case False with first j show ?thesis by blast
              qed
            qed
            with None show ?thesis by simp
          next
            case (Some s)
            with ih obtain k where k: "?good (n + 1) s k" by auto
            have "\<forall>j. n \<le> j \<and> j < k \<longrightarrow> ?miss j"
            proof (intro allI impI)
              fix j assume j: "n \<le> j \<and> j < k"
              show "?miss j"
              proof (cases "n + 1 \<le> j")
                case True with k j show ?thesis by blast
              next
                case False with first j show ?thesis by blast
              qed
            qed
            moreover from k have "n \<le> k" by simp
            ultimately have "?good n s k" using k by blast
            then have "\<exists>k. ?good n s k" by (rule exI)
            with Some show ?thesis by simp
          qed
        qed
      qed
    qed
  qed
qed

lemma solve_loop_ends:
  "0 \<le> n \<Longrightarrow> m \<le> 9007199254740992 \<Longrightarrow> \<exists>r. solve_loop c p m n = Some r"
proof (induction "nat (m - n)" arbitrary: n)
  case 0
  then have "\<not> n < m" by simp
  then show ?case by (simp add: solve_loop_end)
next
  case (Suc k)
  then have lt: "n < m" by simp
  show ?case
  proof (cases "startsWith (sha256 (c @ decimal n)) p")
    case True
    with lt show ?thesis by (simp add: solve_loop_hit)
  next
    case False
    from lt Suc.prems have "n < 9007199254740992" by simp
    with Suc.prems have inc: "increment n = n + 1" by (simp add: increment_exact)
    from Suc.hyps(2) have "k = nat (m - (n + 1))" by simp
    from Suc.hyps(1) [OF this] Suc.prems
    have "\<exists>r. solve_loop c p m (n + 1) = Some r" by simp
    with lt False inc show ?thesis by (simp add: solve_loop_miss)
  qed
qed


section \<open>Strings\<close>

lemma startsWith_Nil: "startsWith s []"
  by (simp add: startsWith_def)

lemma startsWith_Nil_Cons: "\<not> startsWith [] (b # p)"
  by (simp add: startsWith_def)

lemma startsWith_Cons: "startsWith (a # s) (b # p) = (a = b \<and> startsWith s p)"
  by (simp add: startsWith_def)

lemma startsWith_append: "startsWith (t @ s) t"
  by (simp add: startsWith_def)


lemma leading_zeros_Cons:
  "leading_zeros (a # h) = (if a = CHR ''0'' then Suc (leading_zeros h) else 0)"
  by (simp add: leading_zeros_def)

lemma startsWith_zeros: "startsWith h (replicate k CHR ''0'') = (k \<le> leading_zeros h)"
proof (induction h arbitrary: k)
  case Nil
  show ?case
    by (cases k) (simp_all add: startsWith_Nil startsWith_Nil_Cons leading_zeros_def)
next
  case (Cons a h)
  show ?case
  proof (cases k)
    case 0
    then show ?thesis by (simp add: startsWith_Nil)
  next
    case (Suc k')
    have "startsWith (a # h) (replicate k CHR ''0'') = (a = CHR ''0'' \<and> k' \<le> leading_zeros h)"
      using Suc Cons.IH [of k'] by (simp add: startsWith_Cons)
    also have "\<dots> = (k \<le> leading_zeros (a # h))"
      using Suc by (simp add: leading_zeros_Cons)
    finally show ?thesis .
  qed
qed

lemma contains_middle: "contains (a @ t @ b) t"
proof -
  have "length a \<in> set [0..<Suc (length (a @ t @ b))]" by simp
  moreover have "startsWith (drop (length a) (a @ t @ b)) t"
    by (simp add: startsWith_append)
  ultimately show ?thesis
    unfolding contains_def list_ex_iff by blast
qed

lemma contains_end: "contains (a @ t) t"
  using contains_middle [of a t "[]"] by simp

section \<open>The digest has 64 characters\<close>









section \<open>solveChallenge\<close>

lemma solveChallenge_negative:
  "d < 0 \<Longrightarrow>
     solveChallenge tok d m = Some (Inl (Err ''RangeError'' (''Invalid count value: '' @ decimal d)))"
  by (simp add: solveChallenge_def repeat_zero_def)


lemma solveChallenge_loop:
  "0 \<le> d \<Longrightarrow> d \<le> max_string_length \<Longrightarrow>
     solveChallenge tok d m =
       (case solve_loop tok (replicate (nat d) CHR ''0'') m 0 of
          None \<Rightarrow> None
        | Some None \<Rightarrow> Some (Inl (exhausted_error m d))
        | Some (Some s) \<Rightarrow> Some (Inr s))"
  by (simp add: solveChallenge_def repeat_zero_def)

lemma solveChallenge_Inr:
  assumes "solveChallenge tok d m = Some (Inr sol)"
  shows "0 \<le> d \<and> d \<le> max_string_length \<and>
     (\<exists>k. 0 \<le> k \<and> k < m \<and> k \<le> 9007199254740992
        \<and> nonce sol = decimal k \<and> hash sol = sha256 (tok @ decimal k)
        \<and> startsWith (hash sol) (replicate (nat d) CHR ''0'')
        \<and> (\<forall>j. 0 \<le> j \<and> j < k \<longrightarrow>
              \<not> startsWith (sha256 (tok @ decimal j)) (replicate (nat d) CHR ''0'')))"
proof -
  from assms have d: "0 \<le> d" "d \<le> max_string_length"
    by (auto simp: solveChallenge_def repeat_zero_def split: if_splits)
  with assms have "solve_loop tok (replicate (nat d) CHR ''0'') m 0 = Some (Some sol)"
    by (simp add: solveChallenge_loop split: option.splits)
  from solve_loop_returns [OF this] d show ?thesis by simp
qed

lemma solveChallenge_throws:
  assumes "solveChallenge tok d m = Some (Inl e)"
  shows "e = Err ''RangeError'' (''Invalid count value: '' @ decimal d)
       \<or> e = Err ''RangeError'' ''Invalid string length''
       \<or> e = exhausted_error m d"
  using assms
  by (auto simp: solveChallenge_def repeat_zero_def split: if_splits option.splits)

lemma solveChallenge_ends: "m \<le> 9007199254740992 \<Longrightarrow> \<exists>r. solveChallenge tok d m = Some r"
proof -
  assume m: "m \<le> 9007199254740992"
  show ?thesis
  proof (cases "0 \<le> d \<and> d \<le> max_string_length")
    case False
    then show ?thesis by (auto simp: solveChallenge_def repeat_zero_def)
  next
    case True
    from solve_loop_ends [of 0 m tok "replicate (nat d) CHR ''0''"] m
    obtain r where "solve_loop tok (replicate (nat d) CHR ''0'') m 0 = Some r" by auto
    with True show ?thesis by (simp add: solveChallenge_loop split: option.splits)
  qed
qed




text \<open>Difficulty 0 asks for no zero at all: nonce 0 is accepted at once.\<close>

lemma difficulty_zero:
  "0 < m \<Longrightarrow>
     solveChallenge tok 0 m = Some (Inr \<lparr>nonce = ''0'', hash = sha256 (tok @ ''0'')\<rparr>)"
  by (simp add: solveChallenge_def repeat_zero_def max_string_length_def solve_loop_hit
      startsWith_Nil decimal_0)

text \<open>The token \<open>"y"\<close> at difficulty 1: nonce 0 is refused, nonce 1 accepted.\<close>

lemma miss_y0: "\<not> startsWith (sha256 (''y'' @ decimal 0)) ''0''"
  by (simp add: decimal_0 sha256_y0 startsWith_def)

lemma hit_y1: "startsWith (sha256 (''y'' @ decimal 1)) ''0''"
  by (simp add: decimal_1 sha256_y1 startsWith_def)

lemma solve_y: "solveChallenge ''y'' 1 10000000 = Some (Inr solution_y)"
proof -
  have "solve_loop ''y'' ''0'' 10000000 0 = solve_loop ''y'' ''0'' 10000000 (increment 0)"
    using miss_y0 by (intro solve_loop_miss) simp_all
  also have "\<dots> = solve_loop ''y'' ''0'' 10000000 1"
    by (simp add: increment_exact)
  also have "\<dots> = Some (Some \<lparr>nonce = decimal 1, hash = sha256 (''y'' @ decimal 1)\<rparr>)"
    using solve_loop_hit [of 1 10000000 "''y''" "''0''"] hit_y1 by simp
  finally show ?thesis
    by (simp add: solveChallenge_def repeat_zero_def max_string_length_def decimal_1 sha256_y1
        solution_y_def)
qed

lemma solve_y_bound_1: "solveChallenge ''y'' 1 1 = Some (Inl (exhausted_error 1 1))"
proof -
  have "solve_loop ''y'' ''0'' 1 0 = solve_loop ''y'' ''0'' 1 (increment 0)"
    using miss_y0 by (intro solve_loop_miss) simp_all
  also have "\<dots> = solve_loop ''y'' ''0'' 1 1"
    by (simp add: increment_exact)
  also have "\<dots> = Some None"
    by (simp add: solve_loop_end)
  finally show ?thesis
    by (simp add: solveChallenge_def repeat_zero_def max_string_length_def)
qed

section \<open>The outcome and the requests of solveAndSubmit\<close>

lemma fetchChallenge_cases:
  "fetchChallenge fetch u =
     (case fetch u of
        Inl e \<Rightarrow> Inl e
      | Inr g \<Rightarrow>
          if \<not> ok g then
            Inl (Err ''Error'' (''GET '' @ u @ '' responded with HTTP '' @ decimal (status g)))
          else json_body g)"
  by (simp add: fetchChallenge_def split: sum.splits)

text \<open>The only thing a string conversion of a parsed value throws.\<close>

lemma js_string_throws:
  "js_string v = Inl e \<Longrightarrow> e = to_primitive_error"
  "js_strings vs = Inl e \<Longrightarrow> e = to_primitive_error"
  by (induction v and vs rule: js_string_js_strings.induct)
    (auto split: sum.splits if_splits)

lemma position_suffix_throws: "position_suffix b = Inl e \<Longrightarrow> e = to_primitive_error"
  by (auto simp: position_suffix_def dest: js_string_throws
      split: option.splits json.splits sum.splits if_splits)

lemma position_suffix_caught:
  "position_suffix b = Inl e \<Longrightarrow>
     catch_clause e = Inr (failure ''Cannot convert object to primitive value'')"
  using position_suffix_throws [of b e] by (simp add: to_primitive_error_def catch_clause_def)

lemma catch_clause_Err: "catch_clause (Err name msg) = Inr (failure msg)"
  by (simp add: catch_clause_def)

lemma catch_clause_NonError: "catch_clause (NonError s) = Inr (failure s)"
  by (simp add: catch_clause_def)

lemma catch_clause_Unprintable: "catch_clause (Unprintable x) = Inl x"
  by (simp add: catch_clause_def)

lemma catch_clause_printable:
  "(\<forall>x. e \<noteq> Unprintable x) \<Longrightarrow> \<exists>msg. catch_clause e = Inr (failure msg)"
  by (cases e) (auto simp: catch_clause_def)

lemma submit_step_result:
  "snd (submit_step net u em v sol) =
     (case fetch_post net u (post_body em sol) of
        Inl e \<Rightarrow> Inl e
      | Inr p \<Rightarrow>
          if \<not> ok p then
            Inr (failure (''POST '' @ u @ '' responded with HTTP '' @ decimal (status p) @ '': ''
                          @ (case text_body p of Inl e \<Rightarrow> [] | Inr s \<Rightarrow> s)))
          else (case json_body p of
               Inl e \<Rightarrow> Inl e
             | Inr b \<Rightarrow>
                 (if b = JNull then Inl (null_read_error ''success'')
                  else if get b ''success'' = Some (JBool False) then
                    Inr \<lparr>success = False, position = None,
                         error = Some (case get b ''error'' of
                                         None \<Rightarrow> JStr ''Server returned success: false''
                                       | Some JNull \<Rightarrow> JStr ''Server returned success: false''
                                       | Some e \<Rightarrow> e)\<rparr>
                  else (case position_suffix b of
                          Inl e \<Rightarrow> Inl e
                        | Inr s \<Rightarrow>
                            Inr \<lparr>success = True, position = get b ''position'',
                                 error = None\<rparr>))))"
  by (simp add: submit_step_def Let_def split: sum.splits)

lemma no_request_log: "filter is_request (log v msg) = []"
  by (simp add: log_def)

lemma submit_step_requests:
  "filter is_request (fst (submit_step net u em v sol)) =
     [Post u post_headers (post_body em sol)]"
  by (simp add: submit_step_def Let_def no_request_log split: sum.splits)

lemma try_block_result:
  "map_option snd (try_block net u em v) =
     (case fetchChallenge (fetch_get net) u of
        Inl e \<Rightarrow> Some (Inl e)
      | Inr c \<Rightarrow>
          (case solveChallenge (challenge c) (difficulty c) 10000000 of
             None \<Rightarrow> None
           | Some (Inl e) \<Rightarrow> Some (Inl e)
           | Some (Inr sol) \<Rightarrow> Some (snd (submit_step net u em v sol))))"
  by (simp add: try_block_def Let_def split_beta split: sum.splits option.splits)

lemma try_block_requests:
  "map_option (\<lambda>(t, r). filter is_request t) (try_block net u em v) =
     (case fetchChallenge (fetch_get net) u of
        Inl e \<Rightarrow> Some [Get u]
      | Inr c \<Rightarrow>
          (case solveChallenge (challenge c) (difficulty c) 10000000 of
             None \<Rightarrow> None
           | Some (Inl e) \<Rightarrow> Some [Get u]
           | Some (Inr sol) \<Rightarrow> Some [Get u, Post u post_headers (post_body em sol)]))"
  by (simp add: try_block_def Let_def split_beta no_request_log submit_step_requests
      split: sum.splits option.splits)

lemma outcome_try:
  "outcome net opts =
     map_option (\<lambda>r. case r of Inl e \<Rightarrow> catch_clause e | Inr res \<Rightarrow> Inr res)
       (map_option snd (try_block net (url opts) (email opts)
                          (case verbose opts of Some b \<Rightarrow> b | None \<Rightarrow> False)))"
  by (simp add: outcome_def solveAndSubmit_def Let_def split: option.splits prod.splits)

lemma requests_try:
  "requests net opts =
     map_option (\<lambda>(t, r). filter is_request t)
       (try_block net (url opts) (email opts)
          (case verbose opts of Some b \<Rightarrow> b | None \<Rightarrow> False))"
  by (simp add: requests_def solveAndSubmit_def Let_def split: option.splits prod.splits)

text \<open>The default bound is below \<open>2^53\<close>: the solver returns or throws.\<close>

lemma default_bound_ends: "\<exists>r. solveChallenge tok d 10000000 = Some r"
  by (rule solveChallenge_ends) simp

lemma outcome_cases:
  "outcome net opts =
     (case fetch_get net (url opts) of
        Inl e \<Rightarrow> Some (catch_clause e)
      | Inr g \<Rightarrow>
          if \<not> ok g then
            Some (Inr (failure (''GET '' @ url opts @ '' responded with HTTP ''
                                @ decimal (status g))))
          else
            (case json_body g of
               Inl e \<Rightarrow> Some (catch_clause e)
             | Inr c \<Rightarrow>
                 (case solveChallenge (challenge c) (difficulty c) 10000000 of
                    None \<Rightarrow> None
                  | Some (Inl e) \<Rightarrow> Some (catch_clause e)
                  | Some (Inr sol) \<Rightarrow>
                      (case fetch_post net (url opts) (post_body (email opts) sol) of
                         Inl e \<Rightarrow> Some (catch_clause e)
                       | Inr p \<Rightarrow>
                           if \<not> ok p then
                             Some (Inr (failure (''POST '' @ url opts @ '' responded with HTTP ''
                                      @ decimal (status p) @ '': ''
                                      @ (case text_body p of Inl e \<Rightarrow> [] | Inr s \<Rightarrow> s))))
                           else
                             (case json_body p of
                                Inl e \<Rightarrow> Some (catch_clause e)
                              | Inr b \<Rightarrow>
                                  if b = JNull then
                                    Some (Inr (failure (''Cannot read properties of null (reading '' @ [CHR 0x27] @ ''success'' @ [CHR 0x27] @ '')'')))
                                  else if get b ''success'' = Some (JBool False) then
                                    Some (Inr \<lparr>success = False, position = None,
                                               error = Some (case get b ''error'' of
                                                 None \<Rightarrow> JStr ''Server returned success: false''
                                               | Some JNull \<Rightarrow>
                                                   JStr ''Server returned success: false''
                                               | Some e \<Rightarrow> e)\<rparr>)
                                  else
                                    (case position_suffix b of
                                       Inl e \<Rightarrow> Some (catch_clause e)
                                     | Inr s \<Rightarrow>
                                         Some (Inr \<lparr>success = True,
                                                    position = get b ''position'',
                                                    error = None\<rparr>)))))))"
  by (simp add: outcome_try try_block_result submit_step_result fetchChallenge_cases
      catch_clause_Err null_read_error_def split: sum.splits option.splits)

lemma requests_cases:
  "requests net opts =
     (case fetchChallenge (fetch_get net) (url opts) of
        Inl e \<Rightarrow> Some [Get (url opts)]
      | Inr c \<Rightarrow>
          (case solveChallenge (challenge c) (difficulty c) 10000000 of
             None \<Rightarrow> None
           | Some (Inl e) \<Rightarrow> Some [Get (url opts)]
           | Some (Inr sol) \<Rightarrow>
               Some [Get (url opts),
                     Post (url opts) post_headers (post_body (email opts) sol)]))"
  by (simp add: requests_try try_block_requests)

lemma solver_throws_error:
  "solveChallenge tok d m = Some (Inl e) \<Longrightarrow> \<exists>name msg. e = Err name msg"
  using solveChallenge_throws [of tok d m e] by (auto simp: exhausted_error_def)

lemma outcome_settles: "\<exists>r. outcome net opts = Some r"
proof (cases "fetch_get net (url opts)")
  case (Inl e)
  then show ?thesis by (simp add: outcome_cases)
next
  case (Inr g)
  show ?thesis
  proof (cases "ok g")
    case False
    with Inr show ?thesis by (simp add: outcome_cases)
  next
    case True
    show ?thesis
    proof (cases "json_body g")
      case (Inl e)
      with Inr True show ?thesis by (simp add: outcome_cases)
    next
      case c: (Inr c)
      from default_bound_ends [of "challenge c" "difficulty c"]
      obtain s where s: "solveChallenge (challenge c) (difficulty c) 10000000 = Some s" by blast
      with Inr True c show ?thesis
        by (simp add: outcome_cases split: sum.splits)
    qed
  qed
qed

lemma outcome_shape:
  assumes "outcome net opts = Some (Inr res)"
  shows "(\<exists>v. res = \<lparr>success = False, position = None, error = Some v\<rparr>)
       \<or> (\<exists>p. res = \<lparr>success = True, position = p, error = None\<rparr>)"
proof -
  have c: "catch_clause e = Inr res \<Longrightarrow> ?thesis" for e
    by (cases e) (auto simp: catch_clause_def failure_def)
  from assms show ?thesis
    by (auto simp: outcome_cases failure_def dest: c split: sum.splits option.splits if_splits)
qed

lemma outcome_printable:
  assumes "\<forall>x. fetch_get net (url opts) \<noteq> Inl (Unprintable x)"
    and "\<forall>g x. fetch_get net (url opts) = Inr g \<longrightarrow> json_body g \<noteq> Inl (Unprintable x)"
    and "\<forall>b x. fetch_post net (url opts) b \<noteq> Inl (Unprintable x)"
    and "\<forall>b p x. fetch_post net (url opts) b = Inr p \<longrightarrow> json_body p \<noteq> Inl (Unprintable x)"
  shows "\<exists>res. outcome net opts = Some (Inr res)"
proof -
  have pr: "\<exists>res. catch_clause e = Inr res" if "\<forall>x. e \<noteq> Unprintable x" for e
    using catch_clause_printable [OF that] by blast
  have err: "\<exists>res. catch_clause e = Inr res" if "solveChallenge tok d m = Some (Inl e)" for tok d m e
    using solver_throws_error [OF that] by (auto simp: catch_clause_Err)
  from outcome_settles [of net opts] obtain r where r: "outcome net opts = Some r" by blast
  show ?thesis
  proof (cases "fetch_get net (url opts)")
    case (Inl e)
    with assms(1) have "\<forall>x. e \<noteq> Unprintable x" by auto
    from pr [OF this] Inl show ?thesis by (auto simp: outcome_cases)
  next
    case g: (Inr g)
    show ?thesis
    proof (cases "ok g")
      case False
      with g show ?thesis by (simp add: outcome_cases)
    next
      case okg: True
      show ?thesis
      proof (cases "json_body g")
        case (Inl e)
        with assms(2) g have "\<forall>x. e \<noteq> Unprintable x" by auto
        from pr [OF this] g okg Inl show ?thesis by (auto simp: outcome_cases)
      next
        case c: (Inr c)
        from default_bound_ends [of "challenge c" "difficulty c"]
        obtain s where s: "solveChallenge (challenge c) (difficulty c) 10000000 = Some s"
          by blast
        show ?thesis
        proof (cases s)
          case (Inl e)
          with err s have "\<exists>res. catch_clause e = Inr res" by blast
          with g okg c s Inl show ?thesis by (auto simp: outcome_cases)
        next
          case sol: (Inr sol)
          show ?thesis
          proof (cases "fetch_post net (url opts) (post_body (email opts) sol)")
            case (Inl e)
            with assms(3) have "\<forall>x. e \<noteq> Unprintable x" by auto
            from pr [OF this] g okg c s sol Inl show ?thesis by (auto simp: outcome_cases)
          next
            case p: (Inr p)
            show ?thesis
            proof (cases "ok p")
              case False
              with g okg c s sol p show ?thesis by (simp add: outcome_cases)
            next
              case okp: True
              show ?thesis
              proof (cases "json_body p")
                case (Inl e)
                with assms(4) p have "\<forall>x. e \<noteq> Unprintable x" by auto
                from pr [OF this] g okg c s sol p okp Inl show ?thesis
                  by (auto simp: outcome_cases)
              next
                case (Inr b)
                with g okg c s sol p okp show ?thesis
                  by (auto simp: outcome_cases dest: position_suffix_caught split: sum.splits)
              qed
            qed
          qed
        qed
      qed
    qed
  qed
qed

section \<open>The claims\<close>

text \<open>
  C1. For a difficulty \<open>d\<close> from 0 to 4 and any token, a solution that \<open>solveChallenge\<close>
  returns has a hash with at least \<open>d\<close> leading \<open>'0'\<close> characters; its nonce is the decimal
  numeral of a natural number, its hash is the SHA-256 hex digest of the token followed by
  that numeral, and hashing token and nonce again gives the returned hash.
\<close>

theorem solveChallenge_correct:
  assumes "0 \<le> d" and "d \<le> 4" and "solveChallenge tok d m = Some (Inr sol)"
  shows "nat d \<le> leading_zeros (hash sol)
       \<and> startsWith (hash sol) (replicate (nat d) CHR ''0'')
       \<and> 0 \<le> nonce_value (nonce sol)
       \<and> nonce sol = decimal (nonce_value (nonce sol))
       \<and> hash sol = sha256 (tok @ decimal (nonce_value (nonce sol)))
       \<and> sha256 (tok @ nonce sol) = hash sol"
proof -
  from solveChallenge_Inr [OF assms(3)] obtain k where
    k: "0 \<le> k" "k \<le> 9007199254740992" "nonce sol = decimal k"
       "hash sol = sha256 (tok @ decimal k)"
       "startsWith (hash sol) (replicate (nat d) CHR ''0'')"
    by blast
  from k(1,2,3) have v: "nonce_value (nonce sol) = k"
    by (simp add: nonce_value_decimal)
  from k(5) have z: "nat d \<le> leading_zeros (hash sol)"
    by (simp add: startsWith_zeros)
  show ?thesis
    unfolding v using k z by (intro conjI) (simp_all only:)
qed

theorem solveChallenge_correct_witness:
  "solveChallenge ''y'' 1 10000000 = Some (Inr solution_y)
   \<and> nat 1 \<le> leading_zeros (hash solution_y)
   \<and> sha256 (''y'' @ nonce solution_y) = hash solution_y"
proof -
  have a: "(0::int) \<le> 1" and b: "(1::int) \<le> 4" by simp_all
  from solveChallenge_correct [OF a b solve_y] solve_y
  show ?thesis by blast
qed

text \<open>
  C2, as the code has it. \<open>solveAndSubmit\<close> always settles. A value thrown by the GET, by
  the parsing of the challenge, by the solver, by the POST or by the parsing of the answer
  reaches the catch clause: an \<open>Error\<close> gives \<open>{ success: false, error: message }\<close> with its
  own message, any other value with a string conversion gives that string as the message,
  and a value whose string conversion throws makes \<open>solveAndSubmit\<close> throw what the
  conversion threw. What the solver throws is always an \<open>Error\<close>. A non-2xx GET, a non-2xx
  POST and the answer \<open>null\<close> give the failure with the message of that stage; an answer
  with \<open>success: false\<close> gives the failure with the answer's \<open>error\<close> member, or the default
  message when that member is absent or \<open>null\<close>, so that \<open>{ success: false, error:
  "duplicate email" }\<close> gives exactly \<open>{ success: false, error: "duplicate email" }\<close>; and
  an answer that is otherwise a success but whose \<open>position\<close> cannot be converted to a
  string for the log line gives the failure with the message of that \<open>TypeError\<close>.
  When no thrown value has a throwing string conversion, a result is returned and nothing
  is thrown; and every returned result that is not a success has the shape
  \<open>{ success: false, error }\<close>.
\<close>

theorem solveAndSubmit_failures:
  fixes net :: network and opts :: SolveOptions
  defines "u \<equiv> url opts" and "r \<equiv> outcome net opts"
  shows
   "(\<forall>e. (fetch_get net u = Inl e
          \<or> (\<exists>g. fetch_get net u = Inr g \<and> ok g \<and> json_body g = Inl e)
          \<or> (\<exists>g c. fetch_get net u = Inr g \<and> ok g \<and> json_body g = Inr c
                \<and> solveChallenge (challenge c) (difficulty c) 10000000 = Some (Inl e))
          \<or> (\<exists>g c sol. fetch_get net u = Inr g \<and> ok g \<and> json_body g = Inr c
                \<and> solveChallenge (challenge c) (difficulty c) 10000000 = Some (Inr sol)
                \<and> fetch_post net u (post_body (email opts) sol) = Inl e)
          \<or> (\<exists>g c sol p. fetch_get net u = Inr g \<and> ok g \<and> json_body g = Inr c
                \<and> solveChallenge (challenge c) (difficulty c) 10000000 = Some (Inr sol)
                \<and> fetch_post net u (post_body (email opts) sol) = Inr p
                \<and> ok p \<and> json_body p = Inl e)) \<longrightarrow>
        (\<forall>name msg. e = Err name msg \<longrightarrow>
            r = Some (Inr \<lparr>success = False, position = None, error = Some (JStr msg)\<rparr>))
      \<and> (\<forall>s. e = NonError s \<longrightarrow>
            r = Some (Inr \<lparr>success = False, position = None, error = Some (JStr s)\<rparr>))
      \<and> (\<forall>x. e = Unprintable x \<longrightarrow> r = Some (Inl x)))
  \<and> (\<forall>g. fetch_get net u = Inr g \<and> \<not> ok g \<longrightarrow>
        r = Some (Inr \<lparr>success = False, position = None,
                       error = Some (JStr (''GET '' @ u @ '' responded with HTTP ''
                                           @ decimal (status g)))\<rparr>))
  \<and> (\<forall>g c e. fetch_get net u = Inr g \<and> ok g \<and> json_body g = Inr c
        \<and> solveChallenge (challenge c) (difficulty c) 10000000 = Some (Inl e) \<longrightarrow>
        (\<exists>name msg. e = Err name msg
           \<and> r = Some (Inr \<lparr>success = False, position = None, error = Some (JStr msg)\<rparr>)))
  \<and> (\<forall>g c sol p. fetch_get net u = Inr g \<and> ok g \<and> json_body g = Inr c
        \<and> solveChallenge (challenge c) (difficulty c) 10000000 = Some (Inr sol)
        \<and> fetch_post net u (post_body (email opts) sol) = Inr p \<longrightarrow>
        (\<not> ok p \<longrightarrow>
           r = Some (Inr \<lparr>success = False, position = None,
                          error = Some (JStr (''POST '' @ u @ '' responded with HTTP ''
                            @ decimal (status p) @ '': ''
                            @ (case text_body p of Inl e \<Rightarrow> [] | Inr s \<Rightarrow> s)))\<rparr>))
      \<and> (ok p \<and> json_body p = Inr JNull \<longrightarrow>
           r = Some (Inr \<lparr>success = False, position = None,
                          error = Some (JStr (''Cannot read properties of null (reading ''
                            @ [CHR 0x27] @ ''success'' @ [CHR 0x27] @ '')''))\<rparr>))
      \<and> (\<forall>b. ok p \<and> json_body p = Inr b \<and> get b ''success'' = Some (JBool False) \<longrightarrow>
           (get b ''error'' = None \<or> get b ''error'' = Some JNull \<longrightarrow>
              r = Some (Inr \<lparr>success = False, position = None,
                             error = Some (JStr ''Server returned success: false'')\<rparr>))
         \<and> (\<forall>v. get b ''error'' = Some v \<and> v \<noteq> JNull \<longrightarrow>
              r = Some (Inr \<lparr>success = False, position = None, error = Some v\<rparr>))
         \<and> (get b ''error'' = Some (JStr ''duplicate email'') \<longrightarrow>
              r = Some (Inr \<lparr>success = False, position = None,
                             error = Some (JStr ''duplicate email'')\<rparr>)))
      \<and> (\<forall>b e. ok p \<and> json_body p = Inr b \<and> b \<noteq> JNull
             \<and> get b ''success'' \<noteq> Some (JBool False) \<and> position_suffix b = Inl e \<longrightarrow>
           r = Some (Inr \<lparr>success = False, position = None,
                          error = Some (JStr ''Cannot convert object to primitive value'')\<rparr>)))
  \<and> r \<noteq> None
  \<and> ((\<forall>x. fetch_get net u \<noteq> Inl (Unprintable x))
      \<and> (\<forall>g x. fetch_get net u = Inr g \<longrightarrow> json_body g \<noteq> Inl (Unprintable x))
      \<and> (\<forall>b x. fetch_post net u b \<noteq> Inl (Unprintable x))
      \<and> (\<forall>b p x. fetch_post net u b = Inr p \<longrightarrow> json_body p \<noteq> Inl (Unprintable x)) \<longrightarrow>
      (\<exists>res. r = Some (Inr res)))
  \<and> (\<forall>res. r = Some (Inr res) \<and> \<not> success res \<longrightarrow>
        (\<exists>v. res = \<lparr>success = False, position = None, error = Some v\<rparr>))"
  unfolding u_def r_def
proof (intro conjI)
  show "\<forall>e. (fetch_get net (url opts) = Inl e
          \<or> (\<exists>g. fetch_get net (url opts) = Inr g \<and> ok g \<and> json_body g = Inl e)
          \<or> (\<exists>g c. fetch_get net (url opts) = Inr g \<and> ok g \<and> json_body g = Inr c
                \<and> solveChallenge (challenge c) (difficulty c) 10000000 = Some (Inl e))
          \<or> (\<exists>g c sol. fetch_get net (url opts) = Inr g \<and> ok g \<and> json_body g = Inr c
                \<and> solveChallenge (challenge c) (difficulty c) 10000000 = Some (Inr sol)
                \<and> fetch_post net (url opts) (post_body (email opts) sol) = Inl e)
          \<or> (\<exists>g c sol p. fetch_get net (url opts) = Inr g \<and> ok g \<and> json_body g = Inr c
                \<and> solveChallenge (challenge c) (difficulty c) 10000000 = Some (Inr sol)
                \<and> fetch_post net (url opts) (post_body (email opts) sol) = Inr p
                \<and> ok p \<and> json_body p = Inl e)) \<longrightarrow>
        (\<forall>name msg. e = Err name msg \<longrightarrow>
            outcome net opts =
              Some (Inr \<lparr>success = False, position = None, error = Some (JStr msg)\<rparr>))
      \<and> (\<forall>s. e = NonError s \<longrightarrow>
            outcome net opts =
              Some (Inr \<lparr>success = False, position = None, error = Some (JStr s)\<rparr>))
      \<and> (\<forall>x. e = Unprintable x \<longrightarrow> outcome net opts = Some (Inl x))"
  proof (intro allI impI)
    fix e
    assume "fetch_get net (url opts) = Inl e
          \<or> (\<exists>g. fetch_get net (url opts) = Inr g \<and> ok g \<and> json_body g = Inl e)
          \<or> (\<exists>g c. fetch_get net (url opts) = Inr g \<and> ok g \<and> json_body g = Inr c
                \<and> solveChallenge (challenge c) (difficulty c) 10000000 = Some (Inl e))
          \<or> (\<exists>g c sol. fetch_get net (url opts) = Inr g \<and> ok g \<and> json_body g = Inr c
                \<and> solveChallenge (challenge c) (difficulty c) 10000000 = Some (Inr sol)
                \<and> fetch_post net (url opts) (post_body (email opts) sol) = Inl e)
          \<or> (\<exists>g c sol p. fetch_get net (url opts) = Inr g \<and> ok g \<and> json_body g = Inr c
                \<and> solveChallenge (challenge c) (difficulty c) 10000000 = Some (Inr sol)
                \<and> fetch_post net (url opts) (post_body (email opts) sol) = Inr p
                \<and> ok p \<and> json_body p = Inl e)"
    then have k: "outcome net opts = Some (catch_clause e)"
      by (elim disjE exE conjE) (simp_all add: outcome_cases)
    show "(\<forall>name msg. e = Err name msg \<longrightarrow>
            outcome net opts =
              Some (Inr \<lparr>success = False, position = None, error = Some (JStr msg)\<rparr>))
      \<and> (\<forall>s. e = NonError s \<longrightarrow>
            outcome net opts =
              Some (Inr \<lparr>success = False, position = None, error = Some (JStr s)\<rparr>))
      \<and> (\<forall>x. e = Unprintable x \<longrightarrow> outcome net opts = Some (Inl x))"
      unfolding k by (simp add: catch_clause_def failure_def)
  qed
next
  show "\<forall>g c e. fetch_get net (url opts) = Inr g \<and> ok g \<and> json_body g = Inr c
        \<and> solveChallenge (challenge c) (difficulty c) 10000000 = Some (Inl e) \<longrightarrow>
        (\<exists>name msg. e = Err name msg
           \<and> outcome net opts =
               Some (Inr \<lparr>success = False, position = None, error = Some (JStr msg)\<rparr>))"
  proof (intro allI impI)
    fix g c e
    assume a: "fetch_get net (url opts) = Inr g \<and> ok g \<and> json_body g = Inr c
        \<and> solveChallenge (challenge c) (difficulty c) 10000000 = Some (Inl e)"
    then obtain name msg where e: "e = Err name msg"
      using solver_throws_error by blast
    from a have "outcome net opts = Some (catch_clause e)"
      by (simp add: outcome_cases)
    with e have "outcome net opts =
        Some (Inr \<lparr>success = False, position = None, error = Some (JStr msg)\<rparr>)"
      by (simp add: catch_clause_def failure_def)
    with e show "\<exists>name msg. e = Err name msg
           \<and> outcome net opts =
               Some (Inr \<lparr>success = False, position = None, error = Some (JStr msg)\<rparr>)"
      by blast
  qed
next
  from outcome_settles [of net opts] show "outcome net opts \<noteq> None" by auto
next
  show "(\<forall>x. fetch_get net (url opts) \<noteq> Inl (Unprintable x))
      \<and> (\<forall>g x. fetch_get net (url opts) = Inr g \<longrightarrow> json_body g \<noteq> Inl (Unprintable x))
      \<and> (\<forall>b x. fetch_post net (url opts) b \<noteq> Inl (Unprintable x))
      \<and> (\<forall>b p x. fetch_post net (url opts) b = Inr p \<longrightarrow>
            json_body p \<noteq> Inl (Unprintable x)) \<longrightarrow>
      (\<exists>res. outcome net opts = Some (Inr res))"
    using outcome_printable [of net opts] by blast
next
  show "\<forall>res. outcome net opts = Some (Inr res) \<and> \<not> success res \<longrightarrow>
        (\<exists>v. res = \<lparr>success = False, position = None, error = Some v\<rparr>)"
    using outcome_shape [of net opts] by auto
next
  show "\<forall>g. fetch_get net (url opts) = Inr g \<and> \<not> ok g \<longrightarrow>
        outcome net opts =
          Some (Inr \<lparr>success = False, position = None,
                     error = Some (JStr (''GET '' @ url opts @ '' responded with HTTP ''
                                         @ decimal (status g)))\<rparr>)"
    by (simp add: outcome_cases failure_def)
next
  show "\<forall>g c sol p. fetch_get net (url opts) = Inr g \<and> ok g \<and> json_body g = Inr c
        \<and> solveChallenge (challenge c) (difficulty c) 10000000 = Some (Inr sol)
        \<and> fetch_post net (url opts) (post_body (email opts) sol) = Inr p \<longrightarrow>
        (\<not> ok p \<longrightarrow>
           outcome net opts =
             Some (Inr \<lparr>success = False, position = None,
                        error = Some (JStr (''POST '' @ url opts @ '' responded with HTTP ''
                          @ decimal (status p) @ '': ''
                          @ (case text_body p of Inl e \<Rightarrow> [] | Inr s \<Rightarrow> s)))\<rparr>))
      \<and> (ok p \<and> json_body p = Inr JNull \<longrightarrow>
           outcome net opts =
             Some (Inr \<lparr>success = False, position = None,
                        error = Some (JStr (''Cannot read properties of null (reading ''
                          @ [CHR 0x27] @ ''success'' @ [CHR 0x27] @ '')''))\<rparr>))
      \<and> (\<forall>b. ok p \<and> json_body p = Inr b \<and> get b ''success'' = Some (JBool False) \<longrightarrow>
           (get b ''error'' = None \<or> get b ''error'' = Some JNull \<longrightarrow>
              outcome net opts =
                Some (Inr \<lparr>success = False, position = None,
                           error = Some (JStr ''Server returned success: false'')\<rparr>))
         \<and> (\<forall>v. get b ''error'' = Some v \<and> v \<noteq> JNull \<longrightarrow>
              outcome net opts =
                Some (Inr \<lparr>success = False, position = None, error = Some v\<rparr>))
         \<and> (get b ''error'' = Some (JStr ''duplicate email'') \<longrightarrow>
              outcome net opts =
                Some (Inr \<lparr>success = False, position = None,
                           error = Some (JStr ''duplicate email'')\<rparr>)))
      \<and> (\<forall>b e. ok p \<and> json_body p = Inr b \<and> b \<noteq> JNull
             \<and> get b ''success'' \<noteq> Some (JBool False) \<and> position_suffix b = Inl e \<longrightarrow>
           outcome net opts =
             Some (Inr \<lparr>success = False, position = None,
                        error = Some (JStr ''Cannot convert object to primitive value'')\<rparr>))"
  proof (intro allI impI, elim conjE)
    fix g c sol p
    assume a: "fetch_get net (url opts) = Inr g" "ok g" "json_body g = Inr c"
      "solveChallenge (challenge c) (difficulty c) 10000000 = Some (Inr sol)"
      "fetch_post net (url opts) (post_body (email opts) sol) = Inr p"
    have n: "get b ''success'' = Some (JBool False) \<Longrightarrow> b \<noteq> JNull" for b
      by (cases b) simp_all
    from a show "(\<not> ok p \<longrightarrow>
           outcome net opts =
             Some (Inr \<lparr>success = False, position = None,
                        error = Some (JStr (''POST '' @ url opts @ '' responded with HTTP ''
                          @ decimal (status p) @ '': ''
                          @ (case text_body p of Inl e \<Rightarrow> [] | Inr s \<Rightarrow> s)))\<rparr>))
      \<and> (ok p \<and> json_body p = Inr JNull \<longrightarrow>
           outcome net opts =
             Some (Inr \<lparr>success = False, position = None,
                        error = Some (JStr (''Cannot read properties of null (reading ''
                          @ [CHR 0x27] @ ''success'' @ [CHR 0x27] @ '')''))\<rparr>))
      \<and> (\<forall>b. ok p \<and> json_body p = Inr b \<and> get b ''success'' = Some (JBool False) \<longrightarrow>
           (get b ''error'' = None \<or> get b ''error'' = Some JNull \<longrightarrow>
              outcome net opts =
                Some (Inr \<lparr>success = False, position = None,
                           error = Some (JStr ''Server returned success: false'')\<rparr>))
         \<and> (\<forall>v. get b ''error'' = Some v \<and> v \<noteq> JNull \<longrightarrow>
              outcome net opts =
                Some (Inr \<lparr>success = False, position = None, error = Some v\<rparr>))
         \<and> (get b ''error'' = Some (JStr ''duplicate email'') \<longrightarrow>
              outcome net opts =
                Some (Inr \<lparr>success = False, position = None,
                           error = Some (JStr ''duplicate email'')\<rparr>)))
      \<and> (\<forall>b e. ok p \<and> json_body p = Inr b \<and> b \<noteq> JNull
             \<and> get b ''success'' \<noteq> Some (JBool False) \<and> position_suffix b = Inl e \<longrightarrow>
           outcome net opts =
             Some (Inr \<lparr>success = False, position = None,
                        error = Some (JStr ''Cannot convert object to primitive value'')\<rparr>))"
      by (auto simp: outcome_cases failure_def dest: n position_suffix_caught
          split: json.splits)
  qed
qed

theorem solveAndSubmit_failures_witness:
  "outcome scenario_b example_options =
     Some (Inr \<lparr>success = False, position = None, error = Some (JStr ''Network error'')\<rparr>)
   \<and> outcome scenario_thrown_string example_options =
     Some (Inr \<lparr>success = False, position = None, error = Some (JStr ''boom'')\<rparr>)
   \<and> outcome scenario_c example_options =
     Some (Inr \<lparr>success = False, position = None,
                error = Some (JStr ''POST https://example.com responded with HTTP 400: Bad Request'')\<rparr>)
   \<and> outcome scenario_d example_options =
     Some (Inr \<lparr>success = False, position = None, error = Some (JStr ''duplicate email'')\<rparr>)"
proof -
  let ?u = "url example_options"
  let ?c = "\<lparr>pow_required = True, challenge = ''y'', difficulty = 1\<rparr>"
  let ?body = "post_body (email example_options) solution_y"
  have solved: "solveChallenge (challenge ?c) (difficulty ?c) 10000000 = Some (Inr solution_y)"
    by (simp add: solve_y)
  have g: "ok (challenge_y True)" "json_body (challenge_y True) = Inr ?c"
    by (simp_all add: challenge_y_def ok_def)
  have b: "fetch_get scenario_b ?u = Inl (Err ''TypeError'' ''Network error'')"
    by (simp add: scenario_b_def get_network_error_def)
  from solveAndSubmit_failures [of scenario_b example_options, THEN conjunct1, rule_format,
      of "Err ''TypeError'' ''Network error''", OF disjI1, OF b]
  have rb: "outcome scenario_b example_options =
      Some (Inr \<lparr>success = False, position = None, error = Some (JStr ''Network error'')\<rparr>)"
    by blast
  have s: "fetch_get scenario_thrown_string ?u = Inl (NonError ''boom'')"
    by (simp add: scenario_thrown_string_def get_thrown_string_def)
  from solveAndSubmit_failures [of scenario_thrown_string example_options, THEN conjunct1,
      rule_format, of "NonError ''boom''", OF disjI1, OF s]
  have rs: "outcome scenario_thrown_string example_options =
      Some (Inr \<lparr>success = False, position = None, error = Some (JStr ''boom'')\<rparr>)"
    by blast
  let ?p400 = "\<lparr>status = 400, text_body = Inr ''Bad Request'',
          json_body = Inl (Err ''SyntaxError'' ''Unexpected token B in JSON at position 0'')\<rparr>
          :: json response"
  have c: "fetch_get scenario_c ?u = Inr (challenge_y True) \<and> ok (challenge_y True)
      \<and> json_body (challenge_y True) = Inr ?c
      \<and> solveChallenge (challenge ?c) (difficulty ?c) 10000000 = Some (Inr solution_y)
      \<and> fetch_post scenario_c ?u ?body = Inr ?p400"
    using g solved by (simp add: scenario_c_def get_y_def post_bad_request_def)
  have nc: "\<not> ok ?p400" by (simp add: ok_def)
  note stage = conjunct2 [OF conjunct2 [OF conjunct2]]
  from solveAndSubmit_failures [of scenario_c example_options, THEN stage, THEN conjunct1,
      rule_format, OF c, THEN conjunct1, rule_format, OF nc]
  have rc: "outcome scenario_c example_options =
      Some (Inr \<lparr>success = False, position = None,
                 error = Some (JStr ''POST https://example.com responded with HTTP 400: Bad Request'')\<rparr>)"
    by (simp add: example_options_def decimal_400)
  let ?p200 = "\<lparr>status = 200, text_body = Inr [], json_body = Inr duplicate\<rparr>"
  have d: "fetch_get scenario_d ?u = Inr (challenge_y True) \<and> ok (challenge_y True)
      \<and> json_body (challenge_y True) = Inr ?c
      \<and> solveChallenge (challenge ?c) (difficulty ?c) 10000000 = Some (Inr solution_y)
      \<and> fetch_post scenario_d ?u ?body = Inr ?p200"
    using g solved by (simp add: scenario_d_def get_y_def answer_def)
  have dd: "ok ?p200 \<and> json_body ?p200 = Inr duplicate
      \<and> get duplicate ''success'' = Some (JBool False)"
    by (simp add: ok_def duplicate_def)
  have de: "get duplicate ''error'' = Some (JStr ''duplicate email'')"
    by (simp add: duplicate_def)
  from solveAndSubmit_failures [of scenario_d example_options, THEN stage, THEN conjunct1,
      rule_format, OF d, THEN conjunct2, THEN conjunct2, THEN conjunct1, rule_format, OF dd,
      THEN conjunct2, THEN conjunct2, rule_format, OF de]
  have rd: "outcome scenario_d example_options =
      Some (Inr \<lparr>success = False, position = None, error = Some (JStr ''duplicate email'')\<rparr>)" .
  from rb rs rc rd show ?thesis by (intro conjI)
qed

text \<open>
  The claim as stated for every behaviour of the network calls fails: when the GET rejects
  with a value that is not an \<open>Error\<close> and whose conversion to a string throws a
  \<open>TypeError\<close>, the catch clause throws, and that \<open>TypeError\<close> escapes from \<open>solveAndSubmit\<close>.
\<close>

theorem solveAndSubmit_exception_escapes_counterexample:
  "outcome scenario_unprintable example_options =
     Some (Inl (Err ''TypeError'' ''Cannot convert object to primitive value''))
   \<and> fetch_get scenario_unprintable (url example_options) =
     Inl (Unprintable (Err ''TypeError'' ''Cannot convert object to primitive value''))"
  by (simp add: outcome_cases scenario_unprintable_def get_thrown_unprintable_def
      catch_clause_def)




text \<open>
  C4, as the code has it. For a 2xx response \<open>fetchChallenge\<close> returns exactly what
  \<open>res.json()\<close> gives: the parse failure when the body is not well-formed JSON, and the
  parsed value, unchecked, otherwise. The shape of a well-formed body is not validated.
\<close>

theorem fetchChallenge_parse:
  assumes "fetch u = Inr g" and "ok g"
  shows "(\<forall>e. json_body g = Inl e \<longrightarrow> fetchChallenge fetch u = Inl e)
       \<and> (\<forall>v. json_body g = Inr v \<longrightarrow> fetchChallenge fetch u = Inr v)"
  using assms by (simp add: fetchChallenge_cases)

theorem fetchChallenge_parse_witness:
  "fetchChallenge get_malformed ''https://example.com'' =
     Inl (Err ''SyntaxError'' ''Unexpected token < in JSON at position 0'')
   \<and> fetchChallenge get_empty_object ''https://example.com'' = Inr (JObj [])"
proof -
  let ?bad = "\<lparr>status = 200, text_body = Inr ''<html>'',
          json_body = Inl (Err ''SyntaxError'' ''Unexpected token < in JSON at position 0'')\<rparr>
          :: json response"
  let ?obj = "\<lparr>status = 200, text_body = Inr ''{}'', json_body = Inr (JObj [])\<rparr>"
  have bad: "get_malformed ''https://example.com'' = Inr ?bad" "ok ?bad"
    by (simp_all add: get_malformed_def ok_def)
  have obj: "get_empty_object ''https://example.com'' = Inr ?obj" "ok ?obj"
    by (simp_all add: get_empty_object_def ok_def)
  from fetchChallenge_parse [of get_malformed "''https://example.com''", OF bad]
    fetchChallenge_parse [of get_empty_object "''https://example.com''", OF obj]
  show ?thesis by simp
qed

text \<open>
  The claim as stated for every body of another shape fails: the well-formed body \<open>{}\<close> has
  none of the three fields, and \<open>fetchChallenge\<close> returns it.
\<close>

theorem fetchChallenge_unvalidated_counterexample:
  "fetchChallenge get_empty_object ''https://example.com'' = Inr (JObj [])
   \<and> \<not> is_challenge_shape (JObj [])"
  by (simp add: fetchChallenge_def get_empty_object_def ok_def is_challenge_shape_def)

text \<open>
  C5. When \<open>solveChallenge\<close> returns, its nonce is the decimal numeral of a number \<open>n\<close>
  below the bound, the returned hash is the digest of the token followed by that numeral,
  and \<open>n\<close> is the lowest satisfying nonce: the digest for \<open>n\<close> has the required number of
  leading zeros, for every smaller natural number the digest of the token followed by its
  decimal numeral has not, and so every natural number whose digest has them is at
  least \<open>n\<close>.
\<close>

theorem solveChallenge_lowest_nonce:
  assumes "solveChallenge tok d m = Some (Inr sol)"
  shows "0 \<le> nonce_value (nonce sol) \<and> nonce_value (nonce sol) < m
       \<and> nonce sol = decimal (nonce_value (nonce sol))
       \<and> hash sol = sha256 (tok @ decimal (nonce_value (nonce sol)))
       \<and> startsWith (sha256 (tok @ decimal (nonce_value (nonce sol))))
            (replicate (nat d) CHR ''0'')
       \<and> nat d \<le> leading_zeros (sha256 (tok @ decimal (nonce_value (nonce sol))))
       \<and> (\<forall>k. 0 \<le> k \<and> k < nonce_value (nonce sol) \<longrightarrow>
              \<not> startsWith (sha256 (tok @ decimal k)) (replicate (nat d) CHR ''0'')
              \<and> \<not> nat d \<le> leading_zeros (sha256 (tok @ decimal k)))
       \<and> (\<forall>k. 0 \<le> k \<and> nat d \<le> leading_zeros (sha256 (tok @ decimal k)) \<longrightarrow>
              nonce_value (nonce sol) \<le> k)"
proof -
  let ?p = "replicate (nat d) CHR ''0''"
  from solveChallenge_Inr [OF assms] obtain n where
    n: "0 \<le> n" "n < m" "n \<le> 9007199254740992" "nonce sol = decimal n"
       "hash sol = sha256 (tok @ decimal n)" "startsWith (hash sol) ?p"
       "\<forall>j. 0 \<le> j \<and> j < n \<longrightarrow> \<not> startsWith (sha256 (tok @ decimal j)) ?p"
    by blast
  from n(1,3,4) have v: "nonce_value (nonce sol) = n"
    by (simp add: nonce_value_decimal)
  from n(5,6) have hit: "startsWith (sha256 (tok @ decimal n)) ?p" by simp
  have least: "\<forall>k. 0 \<le> k \<and> nat d \<le> leading_zeros (sha256 (tok @ decimal k)) \<longrightarrow> n \<le> k"
  proof (intro allI impI)
    fix k assume k: "0 \<le> k \<and> nat d \<le> leading_zeros (sha256 (tok @ decimal k))"
    show "n \<le> k"
    proof (rule ccontr)
      assume "\<not> n \<le> k"
      with k n(7) have "\<not> startsWith (sha256 (tok @ decimal k)) ?p" by simp
      with k show False by (simp add: startsWith_zeros)
    qed
  qed
  from n hit least show ?thesis
    unfolding v by (simp add: startsWith_zeros)
qed

theorem solveChallenge_lowest_nonce_witness:
  "solveChallenge ''y'' 1 10000000 = Some (Inr solution_y)
   \<and> nonce_value (nonce solution_y) = 1
   \<and> startsWith (sha256 (''y'' @ decimal 1)) (replicate (nat 1) CHR ''0'')
   \<and> \<not> startsWith (sha256 (''y'' @ decimal 0)) (replicate (nat 1) CHR ''0'')"
proof -
  have v: "nonce_value (nonce solution_y) = 1"
    by (simp add: solution_y_def nonce_value_def digit_value_def)
  note r = solveChallenge_lowest_nonce [OF solve_y, unfolded v]
  from r have hit: "startsWith (sha256 (''y'' @ decimal 1)) (replicate (nat 1) CHR ''0'')"
    by blast
  from r have "\<forall>k. 0 \<le> k \<and> k < 1 \<longrightarrow>
          \<not> startsWith (sha256 (''y'' @ decimal k)) (replicate (nat 1) CHR ''0'')"
    by blast
  then have "\<not> startsWith (sha256 (''y'' @ decimal 0)) (replicate (nat 1) CHR ''0'')"
    by simp
  with solve_y v hit show ?thesis by (intro conjI)
qed

text \<open>
  C6. On a non-2xx status \<open>fetchChallenge\<close> throws an error whose message contains the
  status code; when the POST of \<open>solveAndSubmit\<close> is answered with a non-2xx status the
  result is a failure whose message contains the status code and the text of the body, and
  when the text cannot be read the message ends after the status code and the result is
  still that failure.
\<close>

theorem non_2xx_status_in_message:
  "(\<forall>g. fetch u = Inr g \<and> \<not> (200 \<le> status g \<and> status g \<le> 299) \<longrightarrow>
       (\<exists>msg. fetchChallenge fetch u = Inl (Err ''Error'' msg)
              \<and> contains msg (decimal (status g))))
   \<and> (\<forall>g c sol p.
         fetch_get net (url opts) = Inr g \<and> ok g \<and> json_body g = Inr c
         \<and> solveChallenge (challenge c) (difficulty c) 10000000 = Some (Inr sol)
         \<and> fetch_post net (url opts) (post_body (email opts) sol) = Inr p
         \<and> \<not> (200 \<le> status p \<and> status p \<le> 299) \<longrightarrow>
       (\<exists>msg. outcome net opts =
                Some (Inr \<lparr>success = False, position = None, error = Some (JStr msg)\<rparr>)
              \<and> contains msg (decimal (status p))
              \<and> (\<forall>s. text_body p = Inr s \<longrightarrow>
                     contains msg s
                     \<and> msg = ''POST '' @ url opts @ '' responded with HTTP ''
                             @ decimal (status p) @ '': '' @ s)
              \<and> (\<forall>e. text_body p = Inl e \<longrightarrow>
                     msg = ''POST '' @ url opts @ '' responded with HTTP ''
                           @ decimal (status p) @ '': '')))"
proof (intro conjI allI impI)
  fix g
  assume a: "fetch u = Inr g \<and> \<not> (200 \<le> status g \<and> status g \<le> 299)"
  let ?msg = "''GET '' @ u @ '' responded with HTTP '' @ decimal (status g)"
  from a have "fetchChallenge fetch u = Inl (Err ''Error'' ?msg)"
    by (simp add: fetchChallenge_cases ok_def)
  moreover have "contains ?msg (decimal (status g))"
    using contains_end [of "''GET '' @ u @ '' responded with HTTP ''" "decimal (status g)"]
    by simp
  ultimately show "\<exists>msg. fetchChallenge fetch u = Inl (Err ''Error'' msg)
      \<and> contains msg (decimal (status g))"
    by blast
next
  fix g c sol p
  assume a: "fetch_get net (url opts) = Inr g \<and> ok g \<and> json_body g = Inr c
         \<and> solveChallenge (challenge c) (difficulty c) 10000000 = Some (Inr sol)
         \<and> fetch_post net (url opts) (post_body (email opts) sol) = Inr p
         \<and> \<not> (200 \<le> status p \<and> status p \<le> 299)"
  let ?pre = "''POST '' @ url opts @ '' responded with HTTP ''"
  let ?txt = "case text_body p of Inl e \<Rightarrow> [] | Inr s \<Rightarrow> s"
  let ?msg = "?pre @ decimal (status p) @ '': '' @ ?txt"
  from a have r: "outcome net opts =
      Some (Inr \<lparr>success = False, position = None, error = Some (JStr ?msg)\<rparr>)"
    by (simp add: outcome_cases ok_def failure_def)
  have c1: "contains ?msg (decimal (status p))"
    by (rule contains_middle)
  have c2: "contains ?msg ?txt"
    using contains_end [of "?pre @ decimal (status p) @ '': ''" ?txt] by simp
  have c3: "\<forall>s. text_body p = Inr s \<longrightarrow>
      contains ?msg s \<and> ?msg = ?pre @ decimal (status p) @ '': '' @ s"
  proof (intro allI impI)
    fix s
    assume "text_body p = Inr s"
    with c2 show "contains ?msg s \<and> ?msg = ?pre @ decimal (status p) @ '': '' @ s"
      by simp
  qed
  have c4: "\<forall>e. text_body p = Inl e \<longrightarrow> ?msg = ?pre @ decimal (status p) @ '': ''"
    by simp
  from r c1 c3 c4
  show "\<exists>msg. outcome net opts =
          Some (Inr \<lparr>success = False, position = None, error = Some (JStr msg)\<rparr>)
      \<and> contains msg (decimal (status p))
      \<and> (\<forall>s. text_body p = Inr s \<longrightarrow>
             contains msg s
             \<and> msg = ''POST '' @ url opts @ '' responded with HTTP '' @ decimal (status p)
                     @ '': '' @ s)
      \<and> (\<forall>e. text_body p = Inl e \<longrightarrow>
             msg = ''POST '' @ url opts @ '' responded with HTTP '' @ decimal (status p)
                   @ '': '')"
    by (intro exI [of _ ?msg]) simp
qed

theorem non_2xx_status_in_message_witness:
  "(\<exists>msg. fetchChallenge get_unavailable ''https://example.com'' = Inl (Err ''Error'' msg)
          \<and> contains msg ''503'')
   \<and> (\<exists>msg. outcome scenario_c example_options =
            Some (Inr \<lparr>success = False, position = None, error = Some (JStr msg)\<rparr>)
          \<and> contains msg ''400'' \<and> contains msg ''Bad Request'')"
proof -
  let ?u = "''https://example.com''"
  let ?g503 = "\<lparr>status = 503, text_body = Inr [], json_body = Inl (Err ''SyntaxError'' [])\<rparr>
      :: json response"
  let ?c = "\<lparr>pow_required = True, challenge = ''y'', difficulty = 1\<rparr>"
  let ?p400 = "\<lparr>status = 400, text_body = Inr ''Bad Request'',
          json_body = Inl (Err ''SyntaxError'' ''Unexpected token B in JSON at position 0'')\<rparr>
          :: json response"
  note inst = non_2xx_status_in_message [of get_unavailable ?u scenario_c example_options]
  have h1: "get_unavailable ?u = Inr ?g503
      \<and> \<not> (200 \<le> status ?g503 \<and> status ?g503 \<le> 299)"
    by (simp add: get_unavailable_def)
  from inst have "\<forall>g. get_unavailable ?u = Inr g \<and> \<not> (200 \<le> status g \<and> status g \<le> 299) \<longrightarrow>
       (\<exists>msg. fetchChallenge get_unavailable ?u = Inl (Err ''Error'' msg)
              \<and> contains msg (decimal (status g)))"
    by (rule conjunct1)
  from this [rule_format, OF h1]
  obtain m1 where m1: "fetchChallenge get_unavailable ?u = Inl (Err ''Error'' m1)"
    and "contains m1 (decimal (status ?g503))"
    by (elim exE conjE)
  then have c503: "contains m1 ''503''"
    by (simp add: decimal_503)
  have h2: "fetch_get scenario_c (url example_options) = Inr (challenge_y True)
      \<and> ok (challenge_y True) \<and> json_body (challenge_y True) = Inr ?c
      \<and> solveChallenge (challenge ?c) (difficulty ?c) 10000000 = Some (Inr solution_y)
      \<and> fetch_post scenario_c (url example_options)
           (post_body (email example_options) solution_y) = Inr ?p400
      \<and> \<not> (200 \<le> status ?p400 \<and> status ?p400 \<le> 299)"
    by (simp add: scenario_c_def get_y_def challenge_y_def ok_def solve_y post_bad_request_def)
  note part2 = inst [THEN conjunct2, rule_format, OF h2]
  from part2
  obtain m2 where m2: "outcome scenario_c example_options =
      Some (Inr \<lparr>success = False, position = None, error = Some (JStr m2)\<rparr>)"
    and s2: "contains m2 (decimal (status ?p400))"
    and t2: "\<forall>s. text_body ?p400 = Inr s \<longrightarrow>
              contains m2 s
              \<and> m2 = ''POST '' @ url example_options @ '' responded with HTTP ''
                     @ decimal (status ?p400) @ '': '' @ s"
    by (elim exE conjE)
  from s2 have c400: "contains m2 ''400''"
    by (simp add: decimal_400)
  have "text_body ?p400 = Inr ''Bad Request''"
    by simp
  with t2 have cbody: "contains m2 ''Bad Request''"
    by blast
  from m1 c503 have "\<exists>msg. fetchChallenge get_unavailable ?u = Inl (Err ''Error'' msg)
      \<and> contains msg ''503''"
    by blast
  moreover from m2 c400 cbody
  have "\<exists>msg. outcome scenario_c example_options =
            Some (Inr \<lparr>success = False, position = None, error = Some (JStr msg)\<rparr>)
          \<and> contains msg ''400'' \<and> contains msg ''Bad Request''"
    by blast
  ultimately show ?thesis by (rule conjI)
qed

text \<open>
  C7, as the code has it. When the POST is answered with a 2xx status and a parsed body
  other than \<open>null\<close> that does not carry \<open>success: false\<close> (\<open>success\<close> is absent, true or
  anything else), the result is \<open>{ success: true }\<close> with the \<open>position\<close> member of the
  body, provided that member can be converted to a string for the log line: so it is when
  \<open>position\<close> is absent, \<open>null\<close>, a number, a string or a boolean. When the conversion
  throws, the result is the failure with the message of that \<open>TypeError\<close>.
\<close>

theorem success_unless_explicit_false:
  assumes "fetch_get net (url opts) = Inr g" and "ok g" and "json_body g = Inr c"
    and "solveChallenge (challenge c) (difficulty c) 10000000 = Some (Inr sol)"
    and "fetch_post net (url opts) (post_body (email opts) sol) = Inr p"
    and "ok p" and "json_body p = Inr b"
    and "b \<noteq> JNull" and "get b ''success'' \<noteq> Some (JBool False)"
  shows "(get b ''position'' = None \<or> get b ''position'' = Some JNull
          \<or> (\<exists>n. get b ''position'' = Some (JNum n))
          \<or> (\<exists>s. get b ''position'' = Some (JStr s))
          \<or> (\<exists>x. get b ''position'' = Some (JBool x)) \<longrightarrow>
          outcome net opts =
            Some (Inr \<lparr>success = True, position = get b ''position'', error = None\<rparr>))
       \<and> (\<forall>s. position_suffix b = Inr s \<longrightarrow>
            outcome net opts =
              Some (Inr \<lparr>success = True, position = get b ''position'', error = None\<rparr>))
       \<and> (\<forall>e. position_suffix b = Inl e \<longrightarrow>
            outcome net opts =
              Some (Inr \<lparr>success = False, position = None,
                         error = Some (JStr ''Cannot convert object to primitive value'')\<rparr>))"
proof (intro conjI allI impI)
  fix s
  assume "position_suffix b = Inr s"
  with assms show "outcome net opts =
      Some (Inr \<lparr>success = True, position = get b ''position'', error = None\<rparr>)"
    by (simp add: outcome_cases)
next
  fix e
  assume e: "position_suffix b = Inl e"
  from position_suffix_caught [OF e] e assms
  show "outcome net opts =
      Some (Inr \<lparr>success = False, position = None,
                 error = Some (JStr ''Cannot convert object to primitive value'')\<rparr>)"
    by (simp add: outcome_cases failure_def)
next
  assume "get b ''position'' = None \<or> get b ''position'' = Some JNull
          \<or> (\<exists>n. get b ''position'' = Some (JNum n))
          \<or> (\<exists>s. get b ''position'' = Some (JStr s))
          \<or> (\<exists>x. get b ''position'' = Some (JBool x))"
  then have "\<exists>s. position_suffix b = Inr s"
    by (auto simp: position_suffix_def)
  with assms show "outcome net opts =
      Some (Inr \<lparr>success = True, position = get b ''position'', error = None\<rparr>)"
    by (auto simp: outcome_cases)
qed

theorem success_unless_explicit_false_witness:
  "outcome scenario_no_pow example_options =
     Some (Inr \<lparr>success = True, position = None, error = None\<rparr>)
   \<and> outcome scenario_a example_options =
     Some (Inr \<lparr>success = True, position = Some (JNum 7), error = None\<rparr>)"
proof -
  let ?u = "url example_options"
  let ?body = "post_body (email example_options) solution_y"
  let ?pn = "\<lparr>status = 200, text_body = Inr [], json_body = Inr (JObj [])\<rparr>"
  let ?pt = "\<lparr>status = 200, text_body = Inr [], json_body = Inr joined\<rparr>"
  have g: "ok (challenge_y flag)"
    "json_body (challenge_y flag) = Inr \<lparr>pow_required = flag, challenge = ''y'', difficulty = 1\<rparr>"
    for flag
    by (simp_all add: challenge_y_def ok_def)
  have solved: "solveChallenge (challenge \<lparr>pow_required = flag, challenge = ''y'', difficulty = 1\<rparr>)
      (difficulty \<lparr>pow_required = flag, challenge = ''y'', difficulty = 1\<rparr>) 10000000
      = Some (Inr solution_y)" for flag
    by (simp add: solve_y)
  have n: "fetch_get scenario_no_pow ?u = Inr (challenge_y False)"
    "fetch_post scenario_no_pow ?u ?body = Inr ?pn" "ok ?pn" "json_body ?pn = Inr (JObj [])"
    "JObj [] \<noteq> JNull" "get (JObj []) ''success'' \<noteq> Some (JBool False)"
    by (simp_all add: scenario_no_pow_def get_y_def answer_def ok_def)
  have a: "fetch_get scenario_a ?u = Inr (challenge_y True)"
    "fetch_post scenario_a ?u ?body = Inr ?pt" "ok ?pt" "json_body ?pt = Inr joined"
    "joined \<noteq> JNull" "get joined ''success'' \<noteq> Some (JBool False)"
    by (simp_all add: scenario_a_def get_y_def answer_def ok_def joined_def)
  have pn: "get (JObj []) ''position'' = None"
    by simp
  have pa: "get joined ''position'' = Some (JNum 7)"
    by (simp add: joined_def)
  from success_unless_explicit_false [OF n(1) g solved n(2-6), THEN conjunct1] pn
  have rn: "outcome scenario_no_pow example_options =
      Some (Inr \<lparr>success = True, position = None, error = None\<rparr>)"
    by simp
  from success_unless_explicit_false [OF a(1) g solved a(2-6), THEN conjunct1] pa
  have ra: "outcome scenario_a example_options =
      Some (Inr \<lparr>success = True, position = Some (JNum 7), error = None\<rparr>)"
    by simp
  from rn ra show ?thesis by (rule conjI)
qed

text \<open>
  The claim as stated for every parsed body fails: \<open>null\<close> is a parsed body that does not
  carry \<open>success: false\<close>, and reading \<open>success\<close> from it throws the \<open>TypeError\<close> that the
  catch clause turns into a failure; and so is \<open>{ position: { toString: 1 } }\<close>, whose
  position the template of the last log line cannot convert to a string.
\<close>

theorem success_null_body_counterexample:
  "outcome scenario_null example_options =
     Some (Inr \<lparr>success = False, position = None,
                error = Some (JStr (''Cannot read properties of null (reading ''
                                    @ [CHR 0x27] @ ''success'' @ [CHR 0x27] @ '')''))\<rparr>)
   \<and> fetch_post scenario_null (url example_options)
        (post_body (email example_options) solution_y) =
     Inr \<lparr>status = 200, text_body = Inr [], json_body = Inr JNull\<rparr>
   \<and> get JNull ''success'' \<noteq> Some (JBool False)
   \<and> outcome scenario_position_object example_options =
     Some (Inr \<lparr>success = False, position = None,
                error = Some (JStr ''Cannot convert object to primitive value'')\<rparr>)
   \<and> fetch_post scenario_position_object (url example_options)
        (post_body (email example_options) solution_y) =
     Inr \<lparr>status = 200, text_body = Inr [], json_body = Inr position_object\<rparr>
   \<and> get position_object ''success'' \<noteq> Some (JBool False)"
  by (simp add: outcome_cases scenario_null_def scenario_position_object_def get_y_def
      challenge_y_def ok_def solve_y answer_def failure_def position_object_def
      position_suffix_def to_primitive_error_def catch_clause_def)

text \<open>
  C8. Whatever the \<open>pow_required\<close> flag of the fetched challenge, \<open>solveAndSubmit\<close> runs
  the solver on the challenge token and difficulty, and the solver returns or throws: when
  it returns, the requests made are the GET and one POST whose body carries the email and
  the nonce and hash of that solution; when it throws, no POST is made and the result is
  the failure with the solver's message.
\<close>

theorem solver_runs_whatever_the_flag:
  assumes "fetch_get net (url opts) = Inr g" and "ok g"
    and "json_body g = Inr \<lparr>pow_required = flag, challenge = tok, difficulty = d\<rparr>"
  shows "(\<forall>sol. solveChallenge tok d 10000000 = Some (Inr sol) \<longrightarrow>
            requests net opts =
              Some [Get (url opts),
                    Post (url opts) [(''Content-Type'', ''application/json'')]
                      (JObj [(''email'', JStr (email opts)), (''nonce'', JStr (nonce sol)),
                             (''solution'', JStr (hash sol))])])
       \<and> (\<forall>e. solveChallenge tok d 10000000 = Some (Inl e) \<longrightarrow>
            (\<exists>name msg. e = Err name msg
               \<and> requests net opts = Some [Get (url opts)]
               \<and> outcome net opts = Some (Inr (failure msg))))
       \<and> (\<exists>r. solveChallenge tok d 10000000 = Some r)"
proof (intro conjI allI impI)
  fix sol
  assume "solveChallenge tok d 10000000 = Some (Inr sol)"
  with assms show "requests net opts =
              Some [Get (url opts),
                    Post (url opts) [(''Content-Type'', ''application/json'')]
                      (JObj [(''email'', JStr (email opts)), (''nonce'', JStr (nonce sol)),
                             (''solution'', JStr (hash sol))])]"
    by (simp add: requests_cases fetchChallenge_cases post_headers_def post_body_def)
next
  fix e
  assume s: "solveChallenge tok d 10000000 = Some (Inl e)"
  from solver_throws_error [OF s] obtain name msg where e: "e = Err name msg" by blast
  from assms s have "requests net opts = Some [Get (url opts)]"
    by (simp add: requests_cases fetchChallenge_cases)
  moreover from assms s e have "outcome net opts = Some (Inr (failure msg))"
    by (simp add: outcome_cases catch_clause_def)
  ultimately show "\<exists>name msg. e = Err name msg
               \<and> requests net opts = Some [Get (url opts)]
               \<and> outcome net opts = Some (Inr (failure msg))"
    using e by blast
next
  show "\<exists>r. solveChallenge tok d 10000000 = Some r" by (rule default_bound_ends)
qed

theorem solver_runs_whatever_the_flag_witness:
  "requests scenario_no_pow example_options =
     Some [Get ''https://example.com'',
           Post ''https://example.com'' [(''Content-Type'', ''application/json'')]
             (JObj [(''email'', JStr ''a@b.com''), (''nonce'', JStr ''1''),
                    (''solution'',
                     JStr ''03e0769b10886aef0ff2170851dd67d41755c87037c4319d9901e7fdf518c485'')])]"
proof -
  have g: "fetch_get scenario_no_pow (url example_options) = Inr (challenge_y False)"
    "ok (challenge_y False)"
    "json_body (challenge_y False) = Inr \<lparr>pow_required = False, challenge = ''y'', difficulty = 1\<rparr>"
    by (simp_all add: scenario_no_pow_def get_y_def challenge_y_def ok_def)
  from solver_runs_whatever_the_flag [OF g] solve_y
  have "requests scenario_no_pow example_options =
      Some [Get (url example_options),
            Post (url example_options) [(''Content-Type'', ''application/json'')]
              (JObj [(''email'', JStr (email example_options)),
                     (''nonce'', JStr (nonce solution_y)),
                     (''solution'', JStr (hash solution_y))])]"
    by blast
  then show ?thesis
    by (simp add: example_options_def solution_y_def)
qed




text \<open>
  C10. A result that \<open>solveAndSubmit\<close> returns with \<open>success\<close> true has no \<open>error\<close>, and
  one with \<open>success\<close> false has no \<open>position\<close>.
\<close>

theorem result_shape_invariant:
  "\<forall>r. outcome net opts = Some (Inr r) \<longrightarrow>
       (success r \<longrightarrow> error r = None) \<and> (\<not> success r \<longrightarrow> position r = None)"
  using outcome_shape [of net opts] by auto

theorem result_shape_invariant_witness:
  "(\<exists>r. outcome scenario_a example_options = Some (Inr r)
        \<and> success r \<and> error r = None)
   \<and> (\<exists>r. outcome scenario_d example_options = Some (Inr r)
        \<and> \<not> success r \<and> position r = None)"
proof -
  let ?a = "\<lparr>success = True, position = Some (JNum 7), error = None\<rparr>"
  let ?d = "\<lparr>success = False, position = None, error = Some (JStr ''duplicate email'')\<rparr>"
  have a: "outcome scenario_a example_options = Some (Inr ?a)"
    by (simp add: outcome_cases scenario_a_def get_y_def challenge_y_def ok_def solve_y
        answer_def joined_def position_suffix_def)
  have d: "outcome scenario_d example_options = Some (Inr ?d)"
    by (simp add: outcome_cases scenario_d_def get_y_def challenge_y_def ok_def solve_y
        answer_def duplicate_def)
  have sa: "success ?a" and sd: "\<not> success ?d" by simp_all
  from result_shape_invariant [of scenario_a example_options, rule_format, OF a] sa
  have "error ?a = None" by blast
  with a sa have ea: "\<exists>r. outcome scenario_a example_options = Some (Inr r)
        \<and> success r \<and> error r = None"
    by blast
  from result_shape_invariant [of scenario_d example_options, rule_format, OF d] sd
  have "position ?d = None" by blast
  with d sd have ed: "\<exists>r. outcome scenario_d example_options = Some (Inr r)
        \<and> \<not> success r \<and> position r = None"
    by blast
  from ea ed show ?thesis by (rule conjI)
qed

end
